theory Spec2Isabelle
  imports Main "HOL-Library.Word" "HOL-Library.AList"
begin

section \<open>Values, rows and errors\<close>

text \<open>
  The execution engine of \<^verbatim>\<open>SQLExec.cpp\<close> works on rows (\<^verbatim>\<open>ValueDict\<close>, a
  \<^verbatim>\<open>std::map\<close> from column name to \<^verbatim>\<open>Value\<close>), on row handles and on the three catalog
  relations. A \<^verbatim>\<open>ValueDict\<close> is an association list with at most one entry per key:
  \<^verbatim>\<open>row[k] = v\<close> is \<open>AList.update k v row\<close>, a look-up is \<open>map_of row k\<close>.
\<close>

type_synonym Identifier = string

datatype DataType = Attr_INT | Attr_TEXT | Attr_BOOLEAN

datatype Value = VInt "32 word" | VText string | VBool bool

type_synonym ValueDict = "(Identifier \<times> Value) list"
type_synonym ValueDicts = "ValueDict list"
type_synonym Handle = nat
type_synonym Handles = "Handle list"
type_synonym ColumnNames = "Identifier list"
type_synonym ColumnAttributes = "DataType list"

text \<open>
  What a call can throw. \<open>SQLExecError\<close> and \<open>DbRelationError\<close> are the two exception
  classes of the program; \<open>OutOfRange\<close> is the \<^verbatim>\<open>std::out_of_range\<close> of \<^verbatim>\<open>map::at\<close>;
  \<open>MemoryFault\<close> stands for a null dereference or an unchecked out-of-range read, which
  C++ leaves undefined and the model keeps as an outcome of its own.
\<close>

datatype error = SQLExecError string | DbRelationError string | OutOfRange | MemoryFault

section \<open>The parser's syntax tree\<close>

text \<open>
  The statement classes come from the SQL parser's header, which the engine includes.
  Each enumeration lists the kinds the engine names and one more constructor for any
  other value, which is what the \<^verbatim>\<open>default\<close> branch of a \<^verbatim>\<open>switch\<close> receives.
\<close>

datatype ExprType =
  kExprLiteralFloat | kExprLiteralString | kExprLiteralInt | kExprStar
  | kExprPlaceholder | kExprColumnRef | kExprFunctionRef | kExprOperator

datatype OperatorType =
  SIMPLE_OP | NOT_EQUALS | LESS_EQ | GREATER_EQ | LIKE | NOT_LIKE
  | AND | OR | NOT | UMINUS | ISNULL

text \<open>
  An \<^verbatim>\<open>Expr\<close> node: \<^verbatim>\<open>type\<close>, the children \<^verbatim>\<open>expr\<close> and \<^verbatim>\<open>expr2\<close> (nullable),
  \<^verbatim>\<open>name\<close> (a nullable \<^verbatim>\<open>char*\<close>), \<^verbatim>\<open>ival\<close> (\<^verbatim>\<open>int64_t\<close>), \<^verbatim>\<open>opType\<close> and \<^verbatim>\<open>opChar\<close>.
\<close>

datatype Expr =
  Expr (expr_type: ExprType) (expr_expr: "Expr option") (expr_expr2: "Expr option")
       (expr_name: "string option") (expr_ival: "64 word")
       (expr_opType: OperatorType) (expr_opChar: char)

datatype ColumnDefinitionType = Def_TEXT | Def_INT | Def_DOUBLE

record ColumnDefinition =
  coldef_name :: Identifier
  coldef_type :: ColumnDefinitionType

datatype CreateType = Create_kTable | Create_kIndex | Create_other nat

record CreateStatement =
  create_type :: CreateType
  ifNotExists :: bool
  create_tableName :: Identifier
  create_indexName :: Identifier
  indexType :: string
  indexColumns :: "Identifier list"
  columns :: "ColumnDefinition list"

datatype DropType = Drop_kTable | Drop_kIndex | Drop_other nat

record DropStatement =
  drop_type :: DropType
  drop_name :: Identifier
  drop_indexName :: Identifier

datatype ShowType = Show_kTables | Show_kColumns | Show_kIndex | Show_other nat

record ShowStatement =
  show_type :: ShowType
  show_tableName :: Identifier

text \<open>
  The column list of an \<^verbatim>\<open>INSERT\<close> is optional in the grammar, so \<^verbatim>\<open>columns\<close> is a
  nullable pointer to a vector. The statements considered are of the \<^verbatim>\<open>VALUES\<close> form,
  where \<^verbatim>\<open>values\<close> is present.
\<close>

record InsertStatement =
  insert_tableName :: Identifier
  insert_columns :: "Identifier list option"
  insert_values :: "Expr list"

record DeleteStatement =
  delete_tableName :: Identifier
  delete_expr :: "Expr option"

record SelectStatement =
  fromTable :: Identifier
  selectList :: "Expr list"
  whereClause :: "Expr option"

datatype SQLStatement =
  kStmtCreate CreateStatement
  | kStmtDrop DropStatement
  | kStmtShow ShowStatement
  | kStmtInsert InsertStatement
  | kStmtDelete DeleteStatement
  | kStmtSelect SelectStatement
  | kStmtOther nat

section \<open>The relation store and the index store\<close>

text \<open>
  Modelled from the spec: the storage layer (\<^verbatim>\<open>DbRelation\<close>, \<^verbatim>\<open>DbIndex\<close>, \<^verbatim>\<open>Tables\<close>,
  \<^verbatim>\<open>Columns\<close>, \<^verbatim>\<open>Indices\<close> of \<^verbatim>\<open>schema_tables.h\<close>) is not among the sources. A relation
  is the list of its live rows in scan order, each under the handle \<^verbatim>\<open>insert\<close> issued
  for it; handles are never reused. The database holds the three catalog relations, the
  physical user relations that exist, the physical indices that exist (each with the
  handles it contains), and the outcomes the storage layer has pending: every storage
  call takes the next outcome, \<open>None\<close> for success or \<open>Some msg\<close> for a storage error
  with that message. A call that fails leaves the stored data as it was.
\<close>

record Relation =
  rel_rows :: "(Handle \<times> ValueDict) list"
  rel_next :: Handle

record Database =
  db_tables :: Relation
  db_columns :: Relation
  db_indices :: Relation
  db_heap :: "Identifier \<rightharpoonup> Relation"
  db_index_files :: "(Identifier \<times> Identifier) \<rightharpoonup> Handles"
  db_faults :: "string option list"

type_synonym 'a result = "(error + 'a) \<times> Database"

definition TABLES_NAME :: Identifier where "TABLES_NAME = ''_tables''"
definition COLUMNS_NAME :: Identifier where "COLUMNS_NAME = ''_columns''"
definition INDICES_NAME :: Identifier where "INDICES_NAME = ''_indices''"

text \<open>Which relation a \<^verbatim>\<open>DbRelation&\<close> refers to, and the schema the object carries.\<close>

datatype RelationId = Rel_tables | Rel_columns | Rel_indices | Rel_user Identifier

record DbRelation =
  table_id :: RelationId
  column_names :: ColumnNames
  column_attributes :: ColumnAttributes

text \<open>Modelled from the spec: the next pending outcome of the storage layer.\<close>

definition storage_call :: "Database \<Rightarrow> string option \<times> Database" where
  "storage_call db =
     (case db_faults db of
        [] \<Rightarrow> (None, db)
      | f # fs \<Rightarrow> (f, db\<lparr>db_faults := fs\<rparr>))"

definition lookup_relation :: "RelationId \<Rightarrow> Database \<Rightarrow> Relation option" where
  "lookup_relation r db =
     (case r of
        Rel_tables \<Rightarrow> Some (db_tables db)
      | Rel_columns \<Rightarrow> Some (db_columns db)
      | Rel_indices \<Rightarrow> Some (db_indices db)
      | Rel_user n \<Rightarrow> db_heap db n)"

definition store_relation :: "RelationId \<Rightarrow> Relation \<Rightarrow> Database \<Rightarrow> Database" where
  "store_relation r rel db =
     (case r of
        Rel_tables \<Rightarrow> db\<lparr>db_tables := rel\<rparr>
      | Rel_columns \<Rightarrow> db\<lparr>db_columns := rel\<rparr>
      | Rel_indices \<Rightarrow> db\<lparr>db_indices := rel\<rparr>
      | Rel_user n \<Rightarrow> db\<lparr>db_heap := (db_heap db)(n \<mapsto> rel)\<rparr>)"

definition no_relation :: error where
  "no_relation = DbRelationError ''relation does not exist''"

text \<open>Modelled from the spec: \<^verbatim>\<open>insert(row) -> handle\<close>.\<close>

definition rel_insert :: "RelationId \<Rightarrow> ValueDict \<Rightarrow> Database \<Rightarrow> Handle result" where
  "rel_insert r row db =
     (case storage_call db of
        (Some msg, db1) \<Rightarrow> (Inl (DbRelationError msg), db1)
      | (None, db1) \<Rightarrow>
          (case lookup_relation r db1 of
             None \<Rightarrow> (Inl no_relation, db1)
           | Some rel \<Rightarrow>
               (Inr (rel_next rel),
                store_relation r
                  (rel\<lparr>rel_rows := rel_rows rel @ [(rel_next rel, row)],
                       rel_next := Suc (rel_next rel)\<rparr>) db1)))"

text \<open>Modelled from the spec: \<^verbatim>\<open>del(handle)\<close>.\<close>

definition rel_del :: "RelationId \<Rightarrow> Handle \<Rightarrow> Database \<Rightarrow> unit result" where
  "rel_del r h db =
     (case storage_call db of
        (Some msg, db1) \<Rightarrow> (Inl (DbRelationError msg), db1)
      | (None, db1) \<Rightarrow>
          (case lookup_relation r db1 of
             None \<Rightarrow> (Inl no_relation, db1)
           | Some rel \<Rightarrow>
               (Inr (),
                store_relation r
                  (rel\<lparr>rel_rows := filter (\<lambda>p. fst p \<noteq> h) (rel_rows rel)\<rparr>) db1)))"

text \<open>
  Modelled from the spec: a row satisfies an equality conjunction when it has every
  column of the conjunction with that value.
\<close>

definition selected :: "ValueDict \<Rightarrow> ValueDict \<Rightarrow> bool" where
  "selected wh row = list_all (\<lambda>(k, v). map_of row k = Some v) wh"

text \<open>Modelled from the spec: \<^verbatim>\<open>select(predicate?) -> handles\<close>, in scan order.\<close>

definition rel_select :: "RelationId \<Rightarrow> ValueDict \<Rightarrow> Database \<Rightarrow> Handles result" where
  "rel_select r wh db =
     (case storage_call db of
        (Some msg, db1) \<Rightarrow> (Inl (DbRelationError msg), db1)
      | (None, db1) \<Rightarrow>
          (case lookup_relation r db1 of
             None \<Rightarrow> (Inl no_relation, db1)
           | Some rel \<Rightarrow>
               (Inr (map fst (filter (\<lambda>p. selected wh (snd p)) (rel_rows rel))), db1)))"

text \<open>
  Modelled from the spec: \<^verbatim>\<open>project(handle, columns) -> row\<close>; the row carries the
  requested columns, and asking for a column the stored row does not have is a storage
  error, as is a handle that is not live.
\<close>

fun project_row :: "ValueDict \<Rightarrow> ColumnNames \<Rightarrow> ValueDict \<Rightarrow> ValueDict option" where
  "project_row row [] out = Some out"
| "project_row row (c # cs) out =
     (case map_of row c of
        None \<Rightarrow> None
      | Some v \<Rightarrow> project_row row cs (AList.update c v out))"

definition rel_project :: "RelationId \<Rightarrow> Handle \<Rightarrow> ColumnNames \<Rightarrow> Database \<Rightarrow> ValueDict result" where
  "rel_project r h cols db =
     (case storage_call db of
        (Some msg, db1) \<Rightarrow> (Inl (DbRelationError msg), db1)
      | (None, db1) \<Rightarrow>
          (case lookup_relation r db1 of
             None \<Rightarrow> (Inl no_relation, db1)
           | Some rel \<Rightarrow>
               (case map_of (rel_rows rel) h of
                  None \<Rightarrow> (Inl (DbRelationError ''no such row''), db1)
                | Some row \<Rightarrow>
                    (case project_row row cols [] of
                       None \<Rightarrow> (Inl (DbRelationError ''no such column''), db1)
                     | Some out \<Rightarrow> (Inr out, db1)))))"

text \<open>Modelled from the spec: \<^verbatim>\<open>create\<close>, \<^verbatim>\<open>create_if_not_exists\<close> and \<^verbatim>\<open>drop\<close> of a relation.
  Creating makes the physical relation, empty; creating one that exists is a storage
  error; dropping removes it. A catalog relation always exists, and dropping it
  removes its rows.\<close>

definition empty_relation :: Relation where
  "empty_relation = \<lparr>rel_rows = [], rel_next = 0\<rparr>"

definition rel_create :: "RelationId \<Rightarrow> Database \<Rightarrow> unit result" where
  "rel_create r db =
     (case storage_call db of
        (Some msg, db1) \<Rightarrow> (Inl (DbRelationError msg), db1)
      | (None, db1) \<Rightarrow>
          (case lookup_relation r db1 of
             Some rel \<Rightarrow> (Inl (DbRelationError ''relation already exists''), db1)
           | None \<Rightarrow> (Inr (), store_relation r empty_relation db1)))"

definition rel_create_if_not_exists :: "RelationId \<Rightarrow> Database \<Rightarrow> unit result" where
  "rel_create_if_not_exists r db =
     (case storage_call db of
        (Some msg, db1) \<Rightarrow> (Inl (DbRelationError msg), db1)
      | (None, db1) \<Rightarrow>
          (case lookup_relation r db1 of
             Some rel \<Rightarrow> (Inr (), db1)
           | None \<Rightarrow> (Inr (), store_relation r empty_relation db1)))"

definition rel_drop :: "RelationId \<Rightarrow> Database \<Rightarrow> unit result" where
  "rel_drop r db =
     (case storage_call db of
        (Some msg, db1) \<Rightarrow> (Inl (DbRelationError msg), db1)
      | (None, db1) \<Rightarrow>
          (case lookup_relation r db1 of
             None \<Rightarrow> (Inl no_relation, db1)
           | Some rel \<Rightarrow>
               (case r of
                  Rel_user n \<Rightarrow> (Inr (), db1\<lparr>db_heap := (db_heap db1)(n := None)\<rparr>)
                | _ \<Rightarrow> (Inr (), store_relation r (rel\<lparr>rel_rows := []\<rparr>) db1))))"

subsection \<open>The catalog\<close>

text \<open>
  Modelled from the spec: the schemas of the three catalog relations, and the schema of
  a user relation as its rows in \<^verbatim>\<open>_columns\<close> record it, in scan order.
\<close>

definition tables_schema :: "ColumnNames \<times> ColumnAttributes" where
  "tables_schema = ([''table_name''], [Attr_TEXT])"

definition columns_schema :: "ColumnNames \<times> ColumnAttributes" where
  "columns_schema = ([''table_name'', ''column_name'', ''data_type''], [Attr_TEXT, Attr_TEXT, Attr_TEXT])"

definition indices_schema :: "ColumnNames \<times> ColumnAttributes" where
  "indices_schema =
     ([''table_name'', ''index_name'', ''seq_in_index'', ''column_name'', ''index_type'',
       ''is_unique''],
      [Attr_TEXT, Attr_TEXT, Attr_INT, Attr_TEXT, Attr_TEXT, Attr_BOOLEAN])"

definition schema_row :: "ValueDict \<Rightarrow> (Identifier \<times> DataType) option" where
  "schema_row row =
     (case map_of row ''column_name'' of
        Some (VText c) \<Rightarrow>
          (case map_of row ''data_type'' of
             Some (VText t) \<Rightarrow>
               (if t = ''INT'' then Some (c, Attr_INT)
                else if t = ''TEXT'' then Some (c, Attr_TEXT)
                else None)
           | _ \<Rightarrow> None)
      | _ \<Rightarrow> None)"

fun schema_rows :: "ValueDict list \<Rightarrow> (ColumnNames \<times> ColumnAttributes) option" where
  "schema_rows [] = Some ([], [])"
| "schema_rows (row # rows) =
     (case schema_row row of
        None \<Rightarrow> None
      | Some (c, t) \<Rightarrow>
          (case schema_rows rows of
             None \<Rightarrow> None
           | Some (cs, ts) \<Rightarrow> Some (c # cs, t # ts)))"

definition rows_of_table :: "Identifier \<Rightarrow> Relation \<Rightarrow> ValueDict list" where
  "rows_of_table table_name rel =
     filter (selected [(''table_name'', VText table_name)]) (map snd (rel_rows rel))"

text \<open>
  Modelled from the spec: \<^verbatim>\<open>Tables::get_table\<close>. The three catalog names give the
  catalog relations; any other name gives the user relation of that name with the
  schema recorded in \<^verbatim>\<open>_columns\<close> (no columns when nothing is recorded).
\<close>

definition get_table :: "Identifier \<Rightarrow> Database \<Rightarrow> DbRelation result" where
  "get_table table_name db =
     (case storage_call db of
        (Some msg, db1) \<Rightarrow> (Inl (DbRelationError msg), db1)
      | (None, db1) \<Rightarrow>
          (if table_name = TABLES_NAME then
             (Inr \<lparr>table_id = Rel_tables, column_names = fst tables_schema,
                   column_attributes = snd tables_schema\<rparr>, db1)
           else if table_name = COLUMNS_NAME then
             (Inr \<lparr>table_id = Rel_columns, column_names = fst columns_schema,
                   column_attributes = snd columns_schema\<rparr>, db1)
           else if table_name = INDICES_NAME then
             (Inr \<lparr>table_id = Rel_indices, column_names = fst indices_schema,
                   column_attributes = snd indices_schema\<rparr>, db1)
           else
             (case schema_rows (rows_of_table table_name (db_columns db1)) of
                None \<Rightarrow> (Inl (DbRelationError ''unknown data type''), db1)
              | Some (cs, ts) \<Rightarrow>
                  (Inr \<lparr>table_id = Rel_user table_name, column_names = cs,
                        column_attributes = ts\<rparr>, db1))))"

text \<open>Modelled from the spec: \<^verbatim>\<open>get_column_attributes(names)\<close>, the declared types of
  the named columns.\<close>

definition get_column_attributes :: "DbRelation \<Rightarrow> ColumnNames \<Rightarrow> ColumnAttributes" where
  "get_column_attributes table select_column_names =
     List.map_filter (map_of (zip (column_names table) (column_attributes table)))
       select_column_names"

subsection \<open>Indices\<close>

text \<open>
  Modelled from the spec: \<^verbatim>\<open>Indices::get_index_names\<close> gives the distinct index names
  recorded in \<^verbatim>\<open>_indices\<close> for a table; \<^verbatim>\<open>get_index\<close> gives the index object for a
  (table, index) pair. A physical index is the list of the handles it contains:
  \<^verbatim>\<open>create\<close> builds it from the live rows of its relation, \<^verbatim>\<open>drop\<close> removes it,
  \<^verbatim>\<open>insert\<close> and \<^verbatim>\<open>del\<close> add and remove a handle.
\<close>

type_synonym IndexNames = "Identifier list"
type_synonym DbIndex = "Identifier \<times> Identifier"

definition index_name_of :: "ValueDict \<Rightarrow> Identifier list" where
  "index_name_of row = (case map_of row ''index_name'' of Some (VText i) \<Rightarrow> [i] | _ \<Rightarrow> [])"

definition get_index_names :: "Identifier \<Rightarrow> Database \<Rightarrow> IndexNames result" where
  "get_index_names table_name db =
     (case storage_call db of
        (Some msg, db1) \<Rightarrow> (Inl (DbRelationError msg), db1)
      | (None, db1) \<Rightarrow>
          (Inr (remdups (concat (map index_name_of
                  (rows_of_table table_name (db_indices db1))))), db1))"

definition get_index :: "Identifier \<Rightarrow> Identifier \<Rightarrow> Database \<Rightarrow> DbIndex result" where
  "get_index table_name index_name db =
     (case storage_call db of
        (Some msg, db1) \<Rightarrow> (Inl (DbRelationError msg), db1)
      | (None, db1) \<Rightarrow> (Inr (table_name, index_name), db1))"

definition relation_id :: "Identifier \<Rightarrow> RelationId" where
  "relation_id table_name =
     (if table_name = TABLES_NAME then Rel_tables
      else if table_name = COLUMNS_NAME then Rel_columns
      else if table_name = INDICES_NAME then Rel_indices
      else Rel_user table_name)"

definition no_index :: error where
  "no_index = DbRelationError ''index does not exist''"

definition index_create :: "DbIndex \<Rightarrow> Database \<Rightarrow> unit result" where
  "index_create index db =
     (case storage_call db of
        (Some msg, db1) \<Rightarrow> (Inl (DbRelationError msg), db1)
      | (None, db1) \<Rightarrow>
          (case db_index_files db1 index of
             Some hs \<Rightarrow> (Inl (DbRelationError ''index already exists''), db1)
           | None \<Rightarrow>
               (case lookup_relation (relation_id (fst index)) db1 of
                  None \<Rightarrow> (Inl no_relation, db1)
                | Some rel \<Rightarrow>
                    (Inr (), db1\<lparr>db_index_files :=
                               (db_index_files db1)(index \<mapsto> map fst (rel_rows rel))\<rparr>))))"

definition index_drop :: "DbIndex \<Rightarrow> Database \<Rightarrow> unit result" where
  "index_drop index db =
     (case storage_call db of
        (Some msg, db1) \<Rightarrow> (Inl (DbRelationError msg), db1)
      | (None, db1) \<Rightarrow>
          (case db_index_files db1 index of
             None \<Rightarrow> (Inl no_index, db1)
           | Some hs \<Rightarrow> (Inr (), db1\<lparr>db_index_files := (db_index_files db1)(index := None)\<rparr>)))"

definition index_insert :: "DbIndex \<Rightarrow> Handle \<Rightarrow> Database \<Rightarrow> unit result" where
  "index_insert index h db =
     (case storage_call db of
        (Some msg, db1) \<Rightarrow> (Inl (DbRelationError msg), db1)
      | (None, db1) \<Rightarrow>
          (case db_index_files db1 index of
             None \<Rightarrow> (Inl no_index, db1)
           | Some hs \<Rightarrow>
               (Inr (), db1\<lparr>db_index_files := (db_index_files db1)(index \<mapsto> hs @ [h])\<rparr>)))"

definition index_del :: "DbIndex \<Rightarrow> Handle \<Rightarrow> Database \<Rightarrow> unit result" where
  "index_del index h db =
     (case storage_call db of
        (Some msg, db1) \<Rightarrow> (Inl (DbRelationError msg), db1)
      | (None, db1) \<Rightarrow>
          (case db_index_files db1 index of
             None \<Rightarrow> (Inl no_index, db1)
           | Some hs \<Rightarrow>
               (Inr (), db1\<lparr>db_index_files :=
                          (db_index_files db1)(index \<mapsto> filter (\<lambda>x. x \<noteq> h) hs)\<rparr>)))"

subsection \<open>Evaluation plans\<close>

text \<open>
  Modelled from the spec: \<^verbatim>\<open>EvalPlan.h\<close> is not among the sources. A plan is a table
  scan (with the predicate pushed into it, if any), a selection or a projection. The
  optimizer collapses a selection directly over a table scan into a scan with the
  predicate pushed; \<^verbatim>\<open>pipeline\<close> gives the handles of a scan or a selection;
  \<^verbatim>\<open>evaluate\<close> projects the handles under a projection into rows and fails on any
  other plan.
\<close>

datatype EvalPlan =
  TableScan DbRelation "ValueDict option"
  | Select ValueDict EvalPlan
  | Project ColumnNames EvalPlan

fun optimize :: "EvalPlan \<Rightarrow> EvalPlan" where
  "optimize (Select wh (TableScan table None)) = TableScan table (Some wh)"
| "optimize (Select wh plan) = Select wh (optimize plan)"
| "optimize (Project cols plan) = Project cols (optimize plan)"
| "optimize (TableScan table pushed) = TableScan table pushed"

fun select_handles :: "RelationId \<Rightarrow> Handles \<Rightarrow> ValueDict \<Rightarrow> Database \<Rightarrow> Handles result" where
  "select_handles r [] wh db = (Inr [], db)"
| "select_handles r (h # hs) wh db =
     (case rel_project r h (map fst wh) db of
        (Inl e, db1) \<Rightarrow> (Inl e, db1)
      | (Inr row, db1) \<Rightarrow>
          (case select_handles r hs wh db1 of
             (Inl e, db2) \<Rightarrow> (Inl e, db2)
           | (Inr rest, db2) \<Rightarrow> (Inr (if selected wh row then h # rest else rest), db2)))"

fun pipeline :: "EvalPlan \<Rightarrow> Database \<Rightarrow> (DbRelation \<times> Handles) result" where
  "pipeline (TableScan table pushed) db =
     (case rel_select (table_id table) (case pushed of None \<Rightarrow> [] | Some wh \<Rightarrow> wh) db of
        (Inl e, db1) \<Rightarrow> (Inl e, db1)
      | (Inr hs, db1) \<Rightarrow> (Inr (table, hs), db1))"
| "pipeline (Select wh plan) db =
     (case pipeline plan db of
        (Inl e, db1) \<Rightarrow> (Inl e, db1)
      | (Inr (table, hs), db1) \<Rightarrow>
          (case select_handles (table_id table) hs wh db1 of
             (Inl e, db2) \<Rightarrow> (Inl e, db2)
           | (Inr hs', db2) \<Rightarrow> (Inr (table, hs'), db2)))"
| "pipeline (Project cols plan) db =
     (Inl (DbRelationError ''Not implemented: pipeline other than Select or TableScan''), db)"

fun project_handles :: "RelationId \<Rightarrow> Handles \<Rightarrow> ColumnNames \<Rightarrow> Database \<Rightarrow> ValueDicts result" where
  "project_handles r [] cols db = (Inr [], db)"
| "project_handles r (h # hs) cols db =
     (case rel_project r h cols db of
        (Inl e, db1) \<Rightarrow> (Inl e, db1)
      | (Inr row, db1) \<Rightarrow>
          (case project_handles r hs cols db1 of
             (Inl e, db2) \<Rightarrow> (Inl e, db2)
           | (Inr rows, db2) \<Rightarrow> (Inr (row # rows), db2)))"

fun evaluate :: "EvalPlan \<Rightarrow> Database \<Rightarrow> ValueDicts result" where
  "evaluate (Project cols plan) db =
     (case pipeline plan db of
        (Inl e, db1) \<Rightarrow> (Inl e, db1)
      | (Inr (table, hs), db1) \<Rightarrow> project_handles (table_id table) hs cols db1)"
| "evaluate plan db =
     (Inl (DbRelationError ''Invalid evaluation plan--not ending with a projection''), db)"

section \<open>The execution engine\<close>

text \<open>
  \<^verbatim>\<open>QueryResult\<close>: the three collections are null in a result built from a message
  alone.
\<close>

record QueryResult =
  result_column_names :: "ColumnNames option"
  result_column_attributes :: "ColumnAttributes option"
  result_rows :: "ValueDicts option"
  message :: string

definition QueryResult_message :: "string \<Rightarrow> QueryResult" where
  "QueryResult_message msg =
     \<lparr>result_column_names = None, result_column_attributes = None, result_rows = None,
      message = msg\<rparr>"

definition QueryResult_rows ::
  "ColumnNames \<Rightarrow> ColumnAttributes \<Rightarrow> ValueDicts \<Rightarrow> string \<Rightarrow> QueryResult" where
  "QueryResult_rows cn ca rows msg =
     \<lparr>result_column_names = Some cn, result_column_attributes = Some ca,
      result_rows = Some rows, message = msg\<rparr>"

text \<open>\<^verbatim>\<open>std::to_string\<close> of an unsigned number: its decimal digits.\<close>

definition digit_char :: "nat \<Rightarrow> char" where
  "digit_char d = ''0123456789'' ! d"

fun to_string :: "nat \<Rightarrow> string" where
  "to_string n =
     (if n < 10 then [digit_char n]
      else to_string (n div 10) @ [digit_char (n mod 10)])"

declare to_string.simps [simp del]

subsection \<open>INSERT\<close>

fun get_column_type :: "Identifier \<Rightarrow> ColumnNames \<Rightarrow> ColumnAttributes \<Rightarrow> error + DataType" where
  "get_column_type column [] column_types = Inl (SQLExecError (''unkown column '' @ column))"
| "get_column_type column (c # cs) [] =
     (if c = column then Inl MemoryFault else get_column_type column cs [])"
| "get_column_type column (c # cs) (t # ts) =
     (if c = column then Inr t else get_column_type column cs ts)"

text \<open>
  The loop of \<^verbatim>\<open>insert\<close> over the positions of \<^verbatim>\<open>insert_values\<close>: position \<open>i\<close> reads
  \<^verbatim>\<open>insert_columns[i]\<close> (unchecked) and stores the literal's \<^verbatim>\<open>ival\<close> (narrowed to
  \<^verbatim>\<open>int32_t\<close>) or its \<^verbatim>\<open>name\<close>, as the declared type of the column says.
\<close>

fun insert_row ::
  "Identifier list \<Rightarrow> Expr list \<Rightarrow> ColumnNames \<Rightarrow> ColumnAttributes \<Rightarrow> ValueDict
   \<Rightarrow> error + ValueDict" where
  "insert_row cols [] cn ct row = Inr row"
| "insert_row [] (v # vs) cn ct row = Inl MemoryFault"
| "insert_row (column # cols) (v # vs) cn ct row =
     (case get_column_type column cn ct of
        Inl e \<Rightarrow> Inl e
      | Inr Attr_INT \<Rightarrow>
          insert_row cols vs cn ct (AList.update column (VInt (ucast (expr_ival v))) row)
      | Inr Attr_TEXT \<Rightarrow>
          (case expr_name v of
             None \<Rightarrow> Inl MemoryFault
           | Some s \<Rightarrow> insert_row cols vs cn ct (AList.update column (VText s) row))
      | Inr Attr_BOOLEAN \<Rightarrow>
          Inl (SQLExecError ''don't know how to handle data type in INSERT''))"

fun insert_into_indices :: "Identifier \<Rightarrow> IndexNames \<Rightarrow> Handle \<Rightarrow> Database \<Rightarrow> unit result" where
  "insert_into_indices table_name [] h db = (Inr (), db)"
| "insert_into_indices table_name (index_name # rest) h db =
     (case get_index table_name index_name db of
        (Inl e, db1) \<Rightarrow> (Inl e, db1)
      | (Inr index, db1) \<Rightarrow>
          (case index_insert index h db1 of
             (Inl e, db2) \<Rightarrow> (Inl e, db2)
           | (Inr u, db2) \<Rightarrow> insert_into_indices table_name rest h db2))"

definition insert_statement :: "InsertStatement \<Rightarrow> Database \<Rightarrow> QueryResult result" where
  "insert_statement statement db =
     (let table_name = insert_tableName statement in
      case insert_columns statement of
        None \<Rightarrow> (Inl MemoryFault, db)
      | Some cols \<Rightarrow>
     (case get_table table_name db of
        (Inl e, db1) \<Rightarrow> (Inl e, db1)
      | (Inr table, db1) \<Rightarrow>
     (case insert_row cols (insert_values statement) (column_names table)
             (column_attributes table) [] of
        Inl e \<Rightarrow> (Inl e, db1)
      | Inr row \<Rightarrow>
     (case rel_insert (table_id table) row db1 of
        (Inl e, db2) \<Rightarrow> (Inl e, db2)
      | (Inr insert_handle, db2) \<Rightarrow>
     (case get_index_names table_name db2 of
        (Inl e, db3) \<Rightarrow> (Inl e, db3)
      | (Inr index_names, db3) \<Rightarrow>
     (case insert_into_indices table_name index_names insert_handle db3 of
        (Inl e, db4) \<Rightarrow> (Inl e, db4)
      | (Inr u, db4) \<Rightarrow>
          (Inr (QueryResult_message
                  (''successfully inserted 1 row into '' @ table_name @
                   (if length index_names > 0
                    then '' and from '' @ to_string (length index_names) @ '' indices''
                    else []))), db4)))))))"

subsection \<open>The predicate extractor\<close>

definition ExprType_index :: "ExprType \<Rightarrow> nat" where
  "ExprType_index t =
     (case t of
        kExprLiteralFloat \<Rightarrow> 0 | kExprLiteralString \<Rightarrow> 1 | kExprLiteralInt \<Rightarrow> 2
      | kExprStar \<Rightarrow> 3 | kExprPlaceholder \<Rightarrow> 4 | kExprColumnRef \<Rightarrow> 5
      | kExprFunctionRef \<Rightarrow> 6 | kExprOperator \<Rightarrow> 7)"

text \<open>\<^verbatim>\<open>map::insert(first, last)\<close>: an entry whose key is present already is skipped.\<close>

fun map_insert_range :: "ValueDict \<Rightarrow> ValueDict \<Rightarrow> ValueDict" where
  "map_insert_range m [] = m"
| "map_insert_range m ((k, v) # kvs) =
     map_insert_range (if map_of m k = None then m @ [(k, v)] else m) kvs"

text \<open>
  \<^verbatim>\<open>get_where_conjunction\<close>. The message of the last \<^verbatim>\<open>throw\<close> is the C string
  \<^verbatim>\<open>"Don't know how to handle "\<close> advanced by the numeric value of the node type, since
  \<^verbatim>\<open>+\<close> between a string literal and an enumerator is pointer arithmetic. An operator
  node that is neither \<^verbatim>\<open>AND\<close> nor has \<^verbatim>\<open>opChar == '='\<close> falls out of the
  \<^verbatim>\<open>if\<close>/\<^verbatim>\<open>else if\<close> and the empty \<^verbatim>\<open>where\<close> is returned.
\<close>

fun get_where_conjunction :: "Expr \<Rightarrow> error + ValueDict" where
  "get_where_conjunction (Expr ty e1 e2 nm iv ot oc) =
     (if ty \<noteq> kExprOperator then Inl (DbRelationError ''Invalid statement'')
      else if ot = AND then
        (case e1 of
           None \<Rightarrow> Inl MemoryFault
         | Some l \<Rightarrow>
             (case get_where_conjunction l of
                Inl e \<Rightarrow> Inl e
              | Inr first \<Rightarrow>
                  (case e2 of
                     None \<Rightarrow> Inl MemoryFault
                   | Some r \<Rightarrow>
                       (case get_where_conjunction r of
                          Inl e \<Rightarrow> Inl e
                        | Inr second \<Rightarrow>
                            Inr (map_insert_range (map_insert_range [] first) second)))))
      else if oc = CHR ''='' then
        (case e1 of
           None \<Rightarrow> Inl MemoryFault
         | Some l \<Rightarrow>
             (case expr_name l of
                None \<Rightarrow> Inl MemoryFault
              | Some index \<Rightarrow>
                  (case e2 of
                     None \<Rightarrow> Inl MemoryFault
                   | Some r \<Rightarrow>
                       (if expr_type r = kExprLiteralInt then
                          Inr [(index, VInt (ucast (expr_ival r)))]
                        else if expr_type r = kExprLiteralString then
                          (case expr_name r of
                             None \<Rightarrow> Inl MemoryFault
                           | Some s \<Rightarrow> Inr [(index, VText s)])
                        else
                          Inl (DbRelationError
                                 (drop (ExprType_index (expr_type r))
                                    ''Don't know how to handle ''))))))
      else Inr [])"

subsection \<open>DELETE and SELECT\<close>

text \<open>The plan both statements start from: a table scan, under a selection when there
  is a WHERE clause.\<close>

definition where_plan :: "DbRelation \<Rightarrow> Expr option \<Rightarrow> error + EvalPlan" where
  "where_plan table clause =
     (case clause of
        None \<Rightarrow> Inr (TableScan table None)
      | Some e \<Rightarrow>
          (case get_where_conjunction e of
             Inl err \<Rightarrow> Inl err
           | Inr wh \<Rightarrow> Inr (Select wh (TableScan table None))))"

fun del_from_indices ::
  "Identifier \<Rightarrow> IndexNames \<Rightarrow> Handle \<Rightarrow> 32 word \<Rightarrow> Database \<Rightarrow> (32 word) result" where
  "del_from_indices table_name [] h indices db = (Inr indices, db)"
| "del_from_indices table_name (index_name # rest) h indices db =
     (case get_index table_name index_name db of
        (Inl e, db1) \<Rightarrow> (Inl e, db1)
      | (Inr index, db1) \<Rightarrow>
          (case index_del index h db1 of
             (Inl e, db2) \<Rightarrow> (Inl e, db2)
           | (Inr u, db2) \<Rightarrow> del_from_indices table_name rest h (indices + 1) db2))"

fun del_handles ::
  "Identifier \<Rightarrow> RelationId \<Rightarrow> IndexNames \<Rightarrow> Handles \<Rightarrow> 32 word \<Rightarrow> 32 word \<Rightarrow> Database
   \<Rightarrow> (32 word \<times> 32 word) result" where
  "del_handles table_name r index_names [] rows indices db = (Inr (rows, indices), db)"
| "del_handles table_name r index_names (h # hs) rows indices db =
     (case del_from_indices table_name index_names h indices db of
        (Inl e, db1) \<Rightarrow> (Inl e, db1)
      | (Inr indices', db1) \<Rightarrow>
          (case rel_del r h db1 of
             (Inl e, db2) \<Rightarrow> (Inl e, db2)
           | (Inr u, db2) \<Rightarrow>
               del_handles table_name r index_names hs (rows + 1) indices' db2))"

definition del :: "DeleteStatement \<Rightarrow> Database \<Rightarrow> QueryResult result" where
  "del statement db =
     (let tableName = delete_tableName statement in
      case get_table tableName db of
        (Inl e, db1) \<Rightarrow> (Inl e, db1)
      | (Inr table, db1) \<Rightarrow>
     (case where_plan table (delete_expr statement) of
        Inl e \<Rightarrow> (Inl e, db1)
      | Inr plan \<Rightarrow>
     (case pipeline (optimize plan) db1 of
        (Inl e, db2) \<Rightarrow> (Inl e, db2)
      | (Inr (t, handles), db2) \<Rightarrow>
     (case get_index_names tableName db2 of
        (Inl e, db3) \<Rightarrow> (Inl e, db3)
      | (Inr index_names, db3) \<Rightarrow>
     (case del_handles tableName (table_id table) index_names handles 0 0 db3 of
        (Inl e, db4) \<Rightarrow> (Inl e, db4)
      | (Inr (rows, indices), db4) \<Rightarrow>
          (Inr (QueryResult_message
                  (''successfully deleted '' @ to_string (unat rows) @ '' rows from '' @
                   tableName @ '' '' @ to_string (unat indices) @ '' indices'')), db4))))))"

text \<open>The loop of \<^verbatim>\<open>select\<close> over the select list.\<close>

fun select_columns :: "Expr list \<Rightarrow> DbRelation \<Rightarrow> ColumnNames \<Rightarrow> error + ColumnNames" where
  "select_columns [] table cn = Inr cn"
| "select_columns (stmt # rest) table cn =
     (if expr_type stmt = kExprStar then select_columns rest table (cn @ column_names table)
      else
        (case expr_name stmt of
           None \<Rightarrow> Inl MemoryFault
         | Some n \<Rightarrow> select_columns rest table (cn @ [n])))"

definition select :: "SelectStatement \<Rightarrow> Database \<Rightarrow> QueryResult result" where
  "select statement db =
     (let tableName = fromTable statement in
      case get_table tableName db of
        (Inl e, db1) \<Rightarrow> (Inl e, db1)
      | (Inr table, db1) \<Rightarrow>
     (case where_plan table (whereClause statement) of
        Inl e \<Rightarrow> (Inl e, db1)
      | Inr plan \<Rightarrow>
     (let attributes = get_column_attributes table [] in
      case select_columns (selectList statement) table [] of
        Inl e \<Rightarrow> (Inl e, db1)
      | Inr names \<Rightarrow>
     (case evaluate (optimize (Project names plan)) db1 of
        (Inl e, db2) \<Rightarrow> (Inl e, db2)
      | (Inr rows, db2) \<Rightarrow>
          (Inr (QueryResult_rows names attributes rows
                  (''successfully return '' @ to_string (length rows) @ '' rows'')), db2)))))"

subsection \<open>CREATE TABLE\<close>

definition column_definition :: "ColumnDefinition \<Rightarrow> error + (Identifier \<times> DataType)" where
  "column_definition col =
     (case coldef_type col of
        Def_INT \<Rightarrow> Inr (coldef_name col, Attr_INT)
      | Def_TEXT \<Rightarrow> Inr (coldef_name col, Attr_TEXT)
      | Def_DOUBLE \<Rightarrow> Inl (SQLExecError ''unrecognized data type''))"

fun column_definitions ::
  "ColumnDefinition list \<Rightarrow> ColumnNames \<Rightarrow> ColumnAttributes
   \<Rightarrow> error + (ColumnNames \<times> ColumnAttributes)" where
  "column_definitions [] cn ca = Inr (cn, ca)"
| "column_definitions (col # cols) cn ca =
     (case column_definition col of
        Inl e \<Rightarrow> Inl e
      | Inr (n, a) \<Rightarrow> column_definitions cols (cn @ [n]) (ca @ [a]))"

text \<open>
  A \<^verbatim>\<open>catch (exception &e)\<close> handler takes the exceptions derived from
  \<^verbatim>\<open>std::exception\<close>, which the two error classes of the program and
  \<^verbatim>\<open>std::out_of_range\<close> are.
\<close>

definition is_exception :: "error \<Rightarrow> bool" where
  "is_exception e = (e \<noteq> MemoryFault)"

text \<open>
  The loop of \<^verbatim>\<open>create_table\<close> that inserts one row per column into \<^verbatim>\<open>_columns\<close>.
  \<^verbatim>\<open>row\<close> and \<^verbatim>\<open>c_handles\<close> live outside the loop, so the handles inserted so far
  are returned with an error too: the handler needs them.
\<close>

fun insert_columns_rows ::
  "RelationId \<Rightarrow> ColumnNames \<Rightarrow> ColumnAttributes \<Rightarrow> ValueDict \<Rightarrow> Handles \<Rightarrow> Database
   \<Rightarrow> (error option \<times> Handles) \<times> Database" where
  "insert_columns_rows r [] ca row c_handles db = ((None, c_handles), db)"
| "insert_columns_rows r (n # cn) [] row c_handles db = ((Some MemoryFault, c_handles), db)"
| "insert_columns_rows r (n # cn) (a # ca) row c_handles db =
     (let row1 = AList.update ''column_name'' (VText n) row;
          row2 = AList.update ''data_type''
                   (VText (if a = Attr_INT then ''INT'' else ''TEXT'')) row1
      in case rel_insert r row2 db of
           (Inl e, db1) \<Rightarrow> ((Some e, c_handles), db1)
         | (Inr h, db1) \<Rightarrow> insert_columns_rows r cn ca row2 (c_handles @ [h]) db1)"

text \<open>A loop of \<^verbatim>\<open>del\<close> calls over handles; it stops at the first call that throws.\<close>

fun del_all :: "RelationId \<Rightarrow> Handles \<Rightarrow> Database \<Rightarrow> unit result" where
  "del_all r [] db = (Inr (), db)"
| "del_all r (h # hs) db =
     (case rel_del r h db of
        (Inl e, db1) \<Rightarrow> (Inl e, db1)
      | (Inr u, db1) \<Rightarrow> del_all r hs db1)"

text \<open>The body of the inner \<^verbatim>\<open>try\<close> of \<^verbatim>\<open>create_table\<close>, with the handles on the side.\<close>

definition create_table_inner ::
  "CreateStatement \<Rightarrow> DbRelation \<Rightarrow> ColumnNames \<Rightarrow> ColumnAttributes \<Rightarrow> ValueDict \<Rightarrow> Database
   \<Rightarrow> (error option \<times> Handles) \<times> Database" where
  "create_table_inner statement cols cn ca row db =
     (case insert_columns_rows (table_id cols) cn ca row [] db of
        ((Some e, c_handles), db1) \<Rightarrow> ((Some e, c_handles), db1)
      | ((None, c_handles), db1) \<Rightarrow>
          (case get_table (create_tableName statement) db1 of
             (Inl e, db2) \<Rightarrow> ((Some e, c_handles), db2)
           | (Inr table, db2) \<Rightarrow>
               (case (if ifNotExists statement
                      then rel_create_if_not_exists (table_id table) db2
                      else rel_create (table_id table) db2) of
                  (Inl e, db3) \<Rightarrow> ((Some e, c_handles), db3)
                | (Inr u, db3) \<Rightarrow> ((None, c_handles), db3))))"

text \<open>The body of the outer \<^verbatim>\<open>try\<close>: the inner \<^verbatim>\<open>try\<close> with its \<^verbatim>\<open>catch (...)\<close>,
  which deletes the handles (an exception of that loop is dropped) and throws the
  caught exception again.\<close>

definition create_table_outer ::
  "CreateStatement \<Rightarrow> ColumnNames \<Rightarrow> ColumnAttributes \<Rightarrow> ValueDict \<Rightarrow> Database
   \<Rightarrow> unit result" where
  "create_table_outer statement cn ca row db =
     (case get_table COLUMNS_NAME db of
        (Inl e, db1) \<Rightarrow> (Inl e, db1)
      | (Inr cols, db1) \<Rightarrow>
          (case create_table_inner statement cols cn ca row db1 of
             ((None, c_handles), db2) \<Rightarrow> (Inr (), db2)
           | ((Some e, c_handles), db2) \<Rightarrow>
               (Inl e, snd (del_all (table_id cols) c_handles db2))))"

definition create_table :: "CreateStatement \<Rightarrow> Database \<Rightarrow> QueryResult result" where
  "create_table statement db =
     (let table_name = create_tableName statement in
      case column_definitions (columns statement) [] [] of
        Inl e \<Rightarrow> (Inl e, db)
      | Inr (cn, ca) \<Rightarrow>
     (let row = AList.update ''table_name'' (VText table_name) [] in
      case rel_insert Rel_tables row db of
        (Inl e, db1) \<Rightarrow> (Inl e, db1)
      | (Inr t_handle, db1) \<Rightarrow>
     (case create_table_outer statement cn ca row db1 of
        (Inl e, db2) \<Rightarrow>
          (if is_exception e then (Inl e, snd (rel_del Rel_tables t_handle db2))
           else (Inl e, db2))
      | (Inr u, db2) \<Rightarrow> (Inr (QueryResult_message (''created '' @ table_name)), db2))))"

subsection \<open>CREATE INDEX\<close>

fun check_index_columns :: "Identifier list \<Rightarrow> ColumnNames \<Rightarrow> Identifier \<Rightarrow> error + unit" where
  "check_index_columns [] table_columns table_name = Inr ()"
| "check_index_columns (col_name # rest) table_columns table_name =
     (if col_name \<notin> set table_columns then
        Inl (SQLExecError (''Column '' @ [CHR 0x27] @ col_name @ [CHR 0x27] @
                           '' does not exist in '' @ table_name))
      else check_index_columns rest table_columns table_name)"

text \<open>The loop of \<^verbatim>\<open>create_index\<close> that inserts one row per index column into
  \<^verbatim>\<open>_indices\<close>; \<^verbatim>\<open>seq\<close> is an \<^verbatim>\<open>int\<close>, incremented before each use.\<close>

fun insert_indices_rows ::
  "Identifier list \<Rightarrow> ValueDict \<Rightarrow> 32 word \<Rightarrow> Handles \<Rightarrow> Database
   \<Rightarrow> (error option \<times> Handles) \<times> Database" where
  "insert_indices_rows [] row seq i_handles db = ((None, i_handles), db)"
| "insert_indices_rows (col_name # rest) row seq i_handles db =
     (let row1 = AList.update ''seq_in_index'' (VInt (seq + 1)) row;
          row2 = AList.update ''column_name'' (VText col_name) row1
      in case rel_insert Rel_indices row2 db of
           (Inl e, db1) \<Rightarrow> ((Some e, i_handles), db1)
         | (Inr h, db1) \<Rightarrow> insert_indices_rows rest row2 (seq + 1) (i_handles @ [h]) db1)"

definition index_row :: "CreateStatement \<Rightarrow> ValueDict" where
  "index_row statement =
     AList.update ''is_unique'' (VBool (indexType statement = ''BTREE''))
       (AList.update ''index_type'' (VText (indexType statement))
          (AList.update ''index_name'' (VText (create_indexName statement))
             (AList.update ''table_name'' (VText (create_tableName statement)) [])))"

text \<open>The body of the \<^verbatim>\<open>try\<close> of \<^verbatim>\<open>create_index\<close>, with the handles on the side.\<close>

definition create_index_inner ::
  "CreateStatement \<Rightarrow> Database \<Rightarrow> (error option \<times> Handles) \<times> Database" where
  "create_index_inner statement db =
     (case insert_indices_rows (indexColumns statement) (index_row statement) 0 [] db of
        ((Some e, i_handles), db1) \<Rightarrow> ((Some e, i_handles), db1)
      | ((None, i_handles), db1) \<Rightarrow>
          (case get_index (create_tableName statement) (create_indexName statement) db1 of
             (Inl e, db2) \<Rightarrow> ((Some e, i_handles), db2)
           | (Inr index, db2) \<Rightarrow>
               (case index_create index db2 of
                  (Inl e, db3) \<Rightarrow> ((Some e, i_handles), db3)
                | (Inr u, db3) \<Rightarrow> ((None, i_handles), db3))))"

definition create_index :: "CreateStatement \<Rightarrow> Database \<Rightarrow> QueryResult result" where
  "create_index statement db =
     (let index_name = create_indexName statement;
          table_name = create_tableName statement
      in case get_table table_name db of
        (Inl e, db1) \<Rightarrow> (Inl e, db1)
      | (Inr table, db1) \<Rightarrow>
     (case check_index_columns (indexColumns statement) (column_names table) table_name of
        Inl e \<Rightarrow> (Inl e, db1)
      | Inr u \<Rightarrow>
     (case create_index_inner statement db1 of
        ((Some e, i_handles), db2) \<Rightarrow> (Inl e, snd (del_all Rel_indices i_handles db2))
      | ((None, i_handles), db2) \<Rightarrow>
          (Inr (QueryResult_message (''created index '' @ index_name)), db2))))"

definition create :: "CreateStatement \<Rightarrow> Database \<Rightarrow> QueryResult result" where
  "create statement db =
     (case create_type statement of
        Create_kTable \<Rightarrow> create_table statement db
      | Create_kIndex \<Rightarrow> create_index statement db
      | Create_other k \<Rightarrow>
          (Inr (QueryResult_message ''Only CREATE TABLE and CREATE INDEX are implemented''),
           db))"

subsection \<open>DROP\<close>

fun drop_indices :: "Identifier \<Rightarrow> IndexNames \<Rightarrow> Database \<Rightarrow> unit result" where
  "drop_indices table_name [] db = (Inr (), db)"
| "drop_indices table_name (index_name # rest) db =
     (case get_index table_name index_name db of
        (Inl e, db1) \<Rightarrow> (Inl e, db1)
      | (Inr index, db1) \<Rightarrow>
          (case index_drop index db1 of
             (Inl e, db2) \<Rightarrow> (Inl e, db2)
           | (Inr u, db2) \<Rightarrow> drop_indices table_name rest db2))"

text \<open>
  \<^verbatim>\<open>drop_table\<close>. The guard names \<^verbatim>\<open>Tables::TABLE_NAME\<close> and
  \<^verbatim>\<open>Columns::TABLE_NAME\<close>. The last step reads \<^verbatim>\<open>*handles->begin()\<close> unchecked.
\<close>

definition drop_table :: "DropStatement \<Rightarrow> Database \<Rightarrow> QueryResult result" where
  "drop_table statement db =
     (let table_name = drop_name statement in
      if table_name = TABLES_NAME \<or> table_name = COLUMNS_NAME then
        (Inl (SQLExecError ''cannot drop a schema table''), db)
      else
     (let wh = AList.update ''table_name'' (VText table_name) [] in
      case get_table table_name db of
        (Inl e, db1) \<Rightarrow> (Inl e, db1)
      | (Inr table, db1) \<Rightarrow>
     (case get_index_names table_name db1 of
        (Inl e, db2) \<Rightarrow> (Inl e, db2)
      | (Inr index_names, db2) \<Rightarrow>
     (case drop_indices table_name index_names db2 of
        (Inl e, db3) \<Rightarrow> (Inl e, db3)
      | (Inr u, db3) \<Rightarrow>
     (case rel_select Rel_indices wh db3 of
        (Inl e, db4) \<Rightarrow> (Inl e, db4)
      | (Inr i_handles, db4) \<Rightarrow>
     (case del_all Rel_indices i_handles db4 of
        (Inl e, db5) \<Rightarrow> (Inl e, db5)
      | (Inr u, db5) \<Rightarrow>
     (case get_table COLUMNS_NAME db5 of
        (Inl e, db6) \<Rightarrow> (Inl e, db6)
      | (Inr cols, db6) \<Rightarrow>
     (case rel_select (table_id cols) wh db6 of
        (Inl e, db7) \<Rightarrow> (Inl e, db7)
      | (Inr c_handles, db7) \<Rightarrow>
     (case del_all (table_id cols) c_handles db7 of
        (Inl e, db8) \<Rightarrow> (Inl e, db8)
      | (Inr u, db8) \<Rightarrow>
     (case rel_drop (table_id table) db8 of
        (Inl e, db9) \<Rightarrow> (Inl e, db9)
      | (Inr u, db9) \<Rightarrow>
     (case rel_select Rel_tables wh db9 of
        (Inl e, db10) \<Rightarrow> (Inl e, db10)
      | (Inr t_handles, db10) \<Rightarrow>
     (case t_handles of
        [] \<Rightarrow> (Inl MemoryFault, db10)
      | h # hs \<Rightarrow>
     (case rel_del Rel_tables h db10 of
        (Inl e, db11) \<Rightarrow> (Inl e, db11)
      | (Inr u, db11) \<Rightarrow>
          (Inr (QueryResult_message (''dropped '' @ table_name)), db11))))))))))))))"

definition drop_index :: "DropStatement \<Rightarrow> Database \<Rightarrow> QueryResult result" where
  "drop_index statement db =
     (let table_name = drop_name statement;
          index_name = drop_indexName statement
      in case get_index table_name index_name db of
        (Inl e, db1) \<Rightarrow> (Inl e, db1)
      | (Inr index, db1) \<Rightarrow>
     (case index_drop index db1 of
        (Inl e, db2) \<Rightarrow> (Inl e, db2)
      | (Inr u, db2) \<Rightarrow>
     (let wh = AList.update ''index_name'' (VText index_name)
                 (AList.update ''table_name'' (VText table_name) []) in
      case rel_select Rel_indices wh db2 of
        (Inl e, db3) \<Rightarrow> (Inl e, db3)
      | (Inr handles, db3) \<Rightarrow>
     (case del_all Rel_indices handles db3 of
        (Inl e, db4) \<Rightarrow> (Inl e, db4)
      | (Inr u, db4) \<Rightarrow>
          (Inr (QueryResult_message (''dropped index '' @ index_name)), db4)))))"

definition drop_statement :: "DropStatement \<Rightarrow> Database \<Rightarrow> QueryResult result" where
  "drop_statement statement db =
     (case drop_type statement of
        Drop_kTable \<Rightarrow> drop_table statement db
      | Drop_kIndex \<Rightarrow> drop_index statement db
      | Drop_other k \<Rightarrow>
          (Inr (QueryResult_message ''Only DROP TABLE and CREATE INDEX are implemented''),
           db))"

subsection \<open>SHOW\<close>

definition show_index :: "ShowStatement \<Rightarrow> Database \<Rightarrow> QueryResult result" where
  "show_index statement db =
     (let cn = [''table_name'', ''index_name'', ''column_name'', ''seq_in_index'',
                ''index_type'', ''is_unique''];
          ca = [Attr_TEXT, Attr_TEXT, Attr_TEXT, Attr_INT, Attr_TEXT, Attr_BOOLEAN];
          wh = AList.update ''table_name'' (VText (show_tableName statement)) []
      in case rel_select Rel_indices wh db of
        (Inl e, db1) \<Rightarrow> (Inl e, db1)
      | (Inr handles, db1) \<Rightarrow>
     (case project_handles Rel_indices handles cn db1 of
        (Inl e, db2) \<Rightarrow> (Inl e, db2)
      | (Inr rows, db2) \<Rightarrow>
          (Inr (QueryResult_rows cn ca rows
                  (''successfully returned '' @ to_string (length handles) @ '' rows'')),
           db2)))"

text \<open>The \<^verbatim>\<open>s\<close> member of a \<^verbatim>\<open>Value\<close>: empty unless the value is a text.\<close>

definition value_s :: "Value \<Rightarrow> string" where
  "value_s v = (case v of VText s \<Rightarrow> s | _ \<Rightarrow> [])"

text \<open>The loop of \<^verbatim>\<open>show_tables\<close> over the handles of \<^verbatim>\<open>_tables\<close>.\<close>

fun show_tables_rows :: "Handles \<Rightarrow> ColumnNames \<Rightarrow> Database \<Rightarrow> ValueDicts result" where
  "show_tables_rows [] cn db = (Inr [], db)"
| "show_tables_rows (handle # rest) cn db =
     (case rel_project Rel_tables handle cn db of
        (Inl e, db1) \<Rightarrow> (Inl e, db1)
      | (Inr row, db1) \<Rightarrow>
          (case map_of row ''table_name'' of
             None \<Rightarrow> (Inl OutOfRange, db1)
           | Some v \<Rightarrow>
               (let table_name = value_s v in
                case show_tables_rows rest cn db1 of
                  (Inl e, db2) \<Rightarrow> (Inl e, db2)
                | (Inr rows, db2) \<Rightarrow>
                    (if table_name \<noteq> TABLES_NAME \<and> table_name \<noteq> COLUMNS_NAME
                        \<and> table_name \<noteq> INDICES_NAME
                     then (Inr (row # rows), db2)
                     else (Inr rows, db2)))))"

text \<open>\<^verbatim>\<open>show_tables\<close>; \<^verbatim>\<open>n\<close> is an \<^verbatim>\<open>u_long\<close>, the size of \<^verbatim>\<open>handles\<close> less 3.\<close>

definition show_tables :: "Database \<Rightarrow> QueryResult result" where
  "show_tables db =
     (let cn = [''table_name''];
          ca = [Attr_TEXT]
      in case rel_select Rel_tables [] db of
        (Inl e, db1) \<Rightarrow> (Inl e, db1)
      | (Inr handles, db1) \<Rightarrow>
     (let n = (word_of_nat (length handles) - 3 :: 64 word) in
      case show_tables_rows handles cn db1 of
        (Inl e, db2) \<Rightarrow> (Inl e, db2)
      | (Inr rows, db2) \<Rightarrow>
          (Inr (QueryResult_rows cn ca rows
                  (''successfully returned '' @ to_string (unat n) @ '' rows'')), db2)))"

definition show_columns :: "ShowStatement \<Rightarrow> Database \<Rightarrow> QueryResult result" where
  "show_columns statement db =
     (case get_table COLUMNS_NAME db of
        (Inl e, db1) \<Rightarrow> (Inl e, db1)
      | (Inr cols, db1) \<Rightarrow>
     (let cn = [''table_name'', ''column_name'', ''data_type''];
          ca = [Attr_TEXT];
          wh = AList.update ''table_name'' (VText (show_tableName statement)) []
      in case rel_select (table_id cols) wh db1 of
        (Inl e, db2) \<Rightarrow> (Inl e, db2)
      | (Inr handles, db2) \<Rightarrow>
     (case project_handles (table_id cols) handles cn db2 of
        (Inl e, db3) \<Rightarrow> (Inl e, db3)
      | (Inr rows, db3) \<Rightarrow>
          (Inr (QueryResult_rows cn ca rows
                  (''successfully returned '' @ to_string (length handles) @ '' rows'')),
           db3))))"

definition show_statement :: "ShowStatement \<Rightarrow> Database \<Rightarrow> QueryResult result" where
  "show_statement statement db =
     (case show_type statement of
        Show_kTables \<Rightarrow> show_tables db
      | Show_kColumns \<Rightarrow> show_columns statement db
      | Show_kIndex \<Rightarrow> show_index statement db
      | Show_other k \<Rightarrow> (Inl (SQLExecError ''unrecognized SHOW type''), db))"

subsection \<open>The entry point\<close>

text \<open>
  \<^verbatim>\<open>execute\<close>: the two catalog singletons, made on the first call, are the catalog
  relations of the database here. A \<^verbatim>\<open>DbRelationError\<close> leaves as an
  \<^verbatim>\<open>SQLExecError\<close>; any other exception passes through.
\<close>

definition dispatch :: "SQLStatement \<Rightarrow> Database \<Rightarrow> QueryResult result" where
  "dispatch statement db =
     (case statement of
        kStmtCreate s \<Rightarrow> create s db
      | kStmtDrop s \<Rightarrow> drop_statement s db
      | kStmtShow s \<Rightarrow> show_statement s db
      | kStmtInsert s \<Rightarrow> insert_statement s db
      | kStmtDelete s \<Rightarrow> del s db
      | kStmtSelect s \<Rightarrow> select s db
      | kStmtOther k \<Rightarrow> (Inr (QueryResult_message ''not implemented''), db))"

definition execute :: "SQLStatement \<Rightarrow> Database \<Rightarrow> QueryResult result" where
  "execute statement db =
     (case dispatch statement db of
        (Inl (DbRelationError msg), db1) \<Rightarrow>
          (Inl (SQLExecError (''DbRelationError: '' @ msg)), db1)
      | r \<Rightarrow> r)"

subsection \<open>The empty database\<close>

text \<open>
  Modelled from the spec: a database with no user relation holds the rows that describe
  the three catalog relations themselves, and the storage layer has no failure pending.
\<close>

definition catalog_column :: "Identifier \<Rightarrow> Identifier \<Rightarrow> string \<Rightarrow> ValueDict" where
  "catalog_column t c ty =
     [(''table_name'', VText t), (''column_name'', VText c), (''data_type'', VText ty)]"

definition empty_database :: Database where
  "empty_database =
     \<lparr>db_tables =
        \<lparr>rel_rows = [(0, [(''table_name'', VText TABLES_NAME)]),
                      (1, [(''table_name'', VText COLUMNS_NAME)]),
                      (2, [(''table_name'', VText INDICES_NAME)])],
         rel_next = 3\<rparr>,
      db_columns =
        \<lparr>rel_rows = [(0, catalog_column TABLES_NAME ''table_name'' ''TEXT''),
                      (1, catalog_column COLUMNS_NAME ''table_name'' ''TEXT''),
                      (2, catalog_column COLUMNS_NAME ''column_name'' ''TEXT''),
                      (3, catalog_column COLUMNS_NAME ''data_type'' ''TEXT''),
                      (4, catalog_column INDICES_NAME ''table_name'' ''TEXT''),
                      (5, catalog_column INDICES_NAME ''index_name'' ''TEXT''),
                      (6, catalog_column INDICES_NAME ''seq_in_index'' ''INT''),
                      (7, catalog_column INDICES_NAME ''column_name'' ''TEXT''),
                      (8, catalog_column INDICES_NAME ''index_type'' ''TEXT''),
                      (9, catalog_column INDICES_NAME ''is_unique'' ''BOOLEAN'')],
         rel_next = 10\<rparr>,
      db_indices = empty_relation,
      db_heap = Map.empty,
      db_index_files = Map.empty,
      db_faults = []\<rparr>"

section \<open>Concrete statements and databases\<close>

text \<open>
  The syntax trees the parser builds for the statements used below. A literal node
  carries its kind and either \<^verbatim>\<open>ival\<close> or \<^verbatim>\<open>name\<close>; the fields a node does not use
  are zero or null.
\<close>

definition literal_int :: "64 word \<Rightarrow> Expr" where
  "literal_int n = Expr kExprLiteralInt None None None n SIMPLE_OP (CHR 0x00)"

definition literal_string :: "string \<Rightarrow> Expr" where
  "literal_string s = Expr kExprLiteralString None None (Some s) 0 SIMPLE_OP (CHR 0x00)"

definition column_ref :: "string \<Rightarrow> Expr" where
  "column_ref c = Expr kExprColumnRef None None (Some c) 0 SIMPLE_OP (CHR 0x00)"

definition star :: Expr where
  "star = Expr kExprStar None None None 0 SIMPLE_OP (CHR 0x00)"

definition binary_op :: "Expr \<Rightarrow> OperatorType \<Rightarrow> char \<Rightarrow> Expr \<Rightarrow> Expr" where
  "binary_op l ot oc r = Expr kExprOperator (Some l) (Some r) None 0 ot oc"

text \<open>\<^verbatim>\<open>CREATE TABLE t (a INT, b TEXT)\<close>\<close>

definition create_t :: CreateStatement where
  "create_t =
     \<lparr>create_type = Create_kTable, ifNotExists = False, create_tableName = ''t'',
      create_indexName = [], indexType = [], indexColumns = [],
      columns = [\<lparr>coldef_name = ''a'', coldef_type = Def_INT\<rparr>,
                 \<lparr>coldef_name = ''b'', coldef_type = Def_TEXT\<rparr>]\<rparr>"

text \<open>\<^verbatim>\<open>INSERT INTO t (b, a) VALUES ("x", 7)\<close>\<close>

definition insert_x_7 :: InsertStatement where
  "insert_x_7 =
     \<lparr>insert_tableName = ''t'', insert_columns = Some [''b'', ''a''],
      insert_values = [literal_string ''x'', literal_int 7]\<rparr>"

text \<open>\<^verbatim>\<open>SELECT * FROM t\<close>\<close>

definition select_star_t :: SelectStatement where
  "select_star_t = \<lparr>fromTable = ''t'', selectList = [star], whereClause = None\<rparr>"

text \<open>The database after the \<^verbatim>\<open>CREATE TABLE\<close>, and after the \<^verbatim>\<open>INSERT\<close> that follows.\<close>

definition db_created :: Database where
  "db_created = snd (execute (kStmtCreate create_t) empty_database)"

definition db_inserted :: Database where
  "db_inserted = snd (execute (kStmtInsert insert_x_7) db_created)"

text \<open>\<^verbatim>\<open>DROP TABLE _indices\<close>\<close>

definition drop_indices_table :: DropStatement where
  "drop_indices_table =
     \<lparr>drop_type = Drop_kTable, drop_name = ''_indices'', drop_indexName = []\<rparr>"

text \<open>A \<^verbatim>\<open>SHOW\<close> statement of a kind other than tables, columns and index.\<close>

definition show_unrecognized :: ShowStatement where
  "show_unrecognized = \<lparr>show_type = Show_other 3, show_tableName = ''t''\<rparr>"

text \<open>\<^verbatim>\<open>a < 5\<close>, \<^verbatim>\<open>a = 1 OR b = 2\<close>, \<^verbatim>\<open>NOT (a = 1)\<close> and \<^verbatim>\<open>"abc" = 1\<close> as WHERE
  clauses.\<close>

definition where_less :: Expr where
  "where_less = binary_op (column_ref ''a'') SIMPLE_OP (CHR ''<'') (literal_int 5)"

definition where_or :: Expr where
  "where_or =
     binary_op (binary_op (column_ref ''a'') SIMPLE_OP (CHR ''='') (literal_int 1))
       OR (CHR 0x00)
       (binary_op (column_ref ''b'') SIMPLE_OP (CHR ''='') (literal_int 2))"

definition where_not :: Expr where
  "where_not =
     Expr kExprOperator
       (Some (binary_op (column_ref ''a'') SIMPLE_OP (CHR ''='') (literal_int 1)))
       None None 0 NOT (CHR 0x00)"

definition where_literal_left :: Expr where
  "where_literal_left =
     binary_op (literal_string ''abc'') SIMPLE_OP (CHR ''='') (literal_int 1)"

text \<open>\<^verbatim>\<open>INSERT INTO t (a) VALUES ("x")\<close>: a string literal for the INT column.\<close>

definition insert_string_for_int :: InsertStatement where
  "insert_string_for_int =
     \<lparr>insert_tableName = ''t'', insert_columns = Some [''a''],
      insert_values = [literal_string ''x'']\<rparr>"

text \<open>\<^verbatim>\<open>INSERT INTO t (a, zzz) VALUES (1)\<close>: two columns listed, one value.\<close>

definition insert_one_value :: InsertStatement where
  "insert_one_value =
     \<lparr>insert_tableName = ''t'', insert_columns = Some [''a'', ''zzz''],
      insert_values = [literal_int 1]\<rparr>"

text \<open>\<^verbatim>\<open>INSERT INTO t (a, zzz) VALUES (1, 2)\<close>\<close>

definition insert_unknown_column :: InsertStatement where
  "insert_unknown_column =
     \<lparr>insert_tableName = ''t'', insert_columns = Some [''a'', ''zzz''],
      insert_values = [literal_int 1, literal_int 2]\<rparr>"

text \<open>\<^verbatim>\<open>INSERT INTO _indices (is_unique) VALUES (1)\<close>: a column declared BOOLEAN.\<close>

definition insert_boolean_column :: InsertStatement where
  "insert_boolean_column =
     \<lparr>insert_tableName = ''_indices'', insert_columns = Some [''is_unique''],
      insert_values = [literal_int 1]\<rparr>"

text \<open>\<^verbatim>\<open>CREATE INDEX ix ON t USING BTREE (a, b)\<close>\<close>

definition create_ix :: CreateStatement where
  "create_ix =
     \<lparr>create_type = Create_kIndex, ifNotExists = False, create_tableName = ''t'',
      create_indexName = ''ix'', indexType = ''BTREE'', indexColumns = [''a'', ''b''],
      columns = []\<rparr>"



text \<open>
  Storage outcomes for \<^verbatim>\<open>CREATE INDEX ix\<close> after the \<^verbatim>\<open>CREATE TABLE\<close>: the look-up of
  \<open>t\<close> and the insert for column \<open>a\<close> succeed, the insert for column \<open>b\<close> fails. In the
  second database the \<^verbatim>\<open>del\<close> of the rollback fails as well.
\<close>

definition db_index_disk_full :: Database where
  "db_index_disk_full = db_created\<lparr>db_faults := [None, None, Some ''disk full'']\<rparr>"

definition db_index_disk_full_io_error :: Database where
  "db_index_disk_full_io_error =
     db_created\<lparr>db_faults := [None, None, Some ''disk full'', Some ''io error'']\<rparr>"

text \<open>The stored data of a database: everything but the pending storage outcomes.\<close>

definition stored_data ::
  "Database \<Rightarrow> Relation \<times> Relation \<times> Relation \<times> (Identifier \<rightharpoonup> Relation)
     \<times> ((Identifier \<times> Identifier) \<rightharpoonup> Handles)" where
  "stored_data db =
     (db_tables db, db_columns db, db_indices db, db_heap db, db_index_files db)"

text \<open>Handles are issued in increasing order: every live handle is below the next one.\<close>

definition handles_fresh :: "Relation \<Rightarrow> bool" where
  "handles_fresh rel = list_all (\<lambda>p. fst p < rel_next rel) (rel_rows rel)"

text \<open>
  The row of \<^verbatim>\<open>_indices\<close> for one column of an index, as the specification words it:
  the table name, the index name, the index type, \<open>is_unique\<close> true exactly for the
  type \<open>BTREE\<close>, the position of the column in the index and the column name.
\<close>

definition index_entry :: "CreateStatement \<Rightarrow> 32 word \<Rightarrow> Identifier \<Rightarrow> ValueDict" where
  "index_entry s seq c =
     [(''table_name'', VText (create_tableName s)),
      (''index_name'', VText (create_indexName s)),
      (''index_type'', VText (indexType s)),
      (''is_unique'', VBool (indexType s = ''BTREE'')),
      (''seq_in_index'', VInt seq),
      (''column_name'', VText c)]"



section \<open>Evaluation\<close>

lemma to_string_digit: "n < 10 \<Longrightarrow> to_string n = [digit_char n]"
  by (simp add: to_string.simps)

lemma to_string_more:
  "\<not> n < 10 \<Longrightarrow> to_string n = to_string (n div 10) @ [digit_char (n mod 10)]"
  by (subst to_string.simps) simp

lemmas storage_defs =
  storage_call_def lookup_relation_def store_relation_def no_relation_def
  rel_insert_def rel_del_def selected_def rel_select_def rel_project_def empty_relation_def
  rel_create_def rel_create_if_not_exists_def rel_drop_def tables_schema_def
  columns_schema_def indices_schema_def schema_row_def rows_of_table_def get_table_def
  get_column_attributes_def index_name_of_def get_index_names_def get_index_def
  relation_id_def no_index_def index_create_def index_drop_def index_insert_def
  index_del_def TABLES_NAME_def COLUMNS_NAME_def INDICES_NAME_def

lemmas exec_defs =
  QueryResult_message_def QueryResult_rows_def digit_char_def to_string_digit
  to_string_more insert_statement_def ExprType_index_def where_plan_def del_def select_def
  column_definition_def is_exception_def create_table_inner_def create_table_outer_def
  create_table_def index_row_def create_index_inner_def create_index_def create_def
  drop_table_def drop_index_def drop_statement_def show_index_def value_s_def show_tables_def
  show_columns_def show_statement_def dispatch_def execute_def catalog_column_def
  empty_database_def Let_def

lemmas example_defs =
  literal_int_def literal_string_def column_ref_def star_def binary_op_def create_t_def
  insert_x_7_def select_star_t_def drop_indices_table_def show_unrecognized_def
  where_less_def where_or_def where_not_def where_literal_left_def
  insert_string_for_int_def insert_one_value_def insert_unknown_column_def
  insert_boolean_column_def create_ix_def

lemma db_created_eq:
  "db_created =
     \<lparr>db_tables =
        \<lparr>rel_rows = [(0, [(''table_name'', VText ''_tables'')]),
                      (1, [(''table_name'', VText ''_columns'')]),
                      (2, [(''table_name'', VText ''_indices'')]),
                      (3, [(''table_name'', VText ''t'')])],
         rel_next = 4\<rparr>,
      db_columns =
        \<lparr>rel_rows = [(0, catalog_column ''_tables'' ''table_name'' ''TEXT''),
                      (1, catalog_column ''_columns'' ''table_name'' ''TEXT''),
                      (2, catalog_column ''_columns'' ''column_name'' ''TEXT''),
                      (3, catalog_column ''_columns'' ''data_type'' ''TEXT''),
                      (4, catalog_column ''_indices'' ''table_name'' ''TEXT''),
                      (5, catalog_column ''_indices'' ''index_name'' ''TEXT''),
                      (6, catalog_column ''_indices'' ''seq_in_index'' ''INT''),
                      (7, catalog_column ''_indices'' ''column_name'' ''TEXT''),
                      (8, catalog_column ''_indices'' ''index_type'' ''TEXT''),
                      (9, catalog_column ''_indices'' ''is_unique'' ''BOOLEAN''),
                      (10, catalog_column ''t'' ''a'' ''INT''),
                      (11, catalog_column ''t'' ''b'' ''TEXT'')],
         rel_next = 12\<rparr>,
      db_indices = empty_relation,
      db_heap = [''t'' \<mapsto> empty_relation],
      db_index_files = Map.empty,
      db_faults = []\<rparr>"
  by (simp add: db_created_def storage_defs exec_defs example_defs)

lemma db_inserted_eq:
  "db_inserted =
     db_created\<lparr>db_heap :=
       [''t'' \<mapsto> \<lparr>rel_rows = [(0, [(''b'', VText ''x''), (''a'', VInt 7)])],
                    rel_next = 1\<rparr>]\<rparr>"
  by (simp add: db_inserted_def db_created_eq storage_defs exec_defs example_defs)

section \<open>The round trip\<close>

text \<open>
  Claim C6. From the empty database, \<^verbatim>\<open>CREATE TABLE t (a INT, b TEXT)\<close>, then
  \<^verbatim>\<open>INSERT INTO t (b, a) VALUES ("x", 7)\<close>, then \<^verbatim>\<open>SELECT * FROM t\<close> all succeed, and
  the result of the \<^verbatim>\<open>SELECT\<close> has the columns in declared order \<open>[a, b]\<close> and exactly
  one row, with \<open>a = 7\<close> and \<open>b = "x"\<close>.
\<close>

theorem create_insert_select_round_trip:
  "fst (execute (kStmtCreate create_t) empty_database)
     = Inr (QueryResult_message ''created t'')
   \<and> fst (execute (kStmtInsert insert_x_7) db_created)
     = Inr (QueryResult_message ''successfully inserted 1 row into t'')
   \<and> fst (execute (kStmtSelect select_star_t) db_inserted)
     = Inr \<lparr>result_column_names = Some [''a'', ''b''],
            result_column_attributes = Some [],
            result_rows = Some [[(''a'', VInt 7), (''b'', VText ''x'')]],
            message = ''successfully return 1 rows''\<rparr>"
proof -
  have "fst (execute (kStmtCreate create_t) empty_database)
          = Inr (QueryResult_message ''created t'')"
    by (simp add: storage_defs exec_defs example_defs)
  moreover
  have "fst (execute (kStmtInsert insert_x_7) db_created)
          = Inr (QueryResult_message ''successfully inserted 1 row into t'')"
    by (simp add: db_created_eq storage_defs exec_defs example_defs)
  moreover
  have "fst (execute (kStmtSelect select_star_t) db_inserted)
          = Inr \<lparr>result_column_names = Some [''a'', ''b''],
                 result_column_attributes = Some [],
                 result_rows = Some [[(''a'', VInt 7), (''b'', VText ''x'')]],
                 message = ''successfully return 1 rows''\<rparr>"
    by (simp add: db_inserted_eq db_created_eq storage_defs exec_defs example_defs)
  ultimately show ?thesis by simp
qed

section \<open>Dropping a catalog relation\<close>

text \<open>The guard of \<^verbatim>\<open>drop_table\<close> rejects \<^verbatim>\<open>_tables\<close> and \<^verbatim>\<open>_columns\<close> and leaves the
  database as it is.\<close>

lemma drop_table_rejects_tables_and_columns:
  "drop_name s = ''_tables'' \<or> drop_name s = ''_columns'' \<Longrightarrow>
   drop_table s db = (Inl (SQLExecError ''cannot drop a schema table''), db)"
  by (auto simp: drop_table_def TABLES_NAME_def COLUMNS_NAME_def)

text \<open>
  Claim C2. \<^verbatim>\<open>DROP TABLE _indices\<close> on the empty database is not rejected: it succeeds
  with the message \<open>dropped _indices\<close>, and it removes the row of \<^verbatim>\<open>_indices\<close> from
  \<^verbatim>\<open>_tables\<close> and the six rows that describe \<^verbatim>\<open>_indices\<close> from \<^verbatim>\<open>_columns\<close>.
\<close>

theorem drop_table_indices_not_rejected:
  "fst (execute (kStmtDrop drop_indices_table) empty_database)
     = Inr (QueryResult_message ''dropped _indices'')
   \<and> rel_rows (db_tables (snd (execute (kStmtDrop drop_indices_table) empty_database)))
     = [(0, [(''table_name'', VText ''_tables'')]),
        (1, [(''table_name'', VText ''_columns'')])]
   \<and> rel_rows (db_columns (snd (execute (kStmtDrop drop_indices_table) empty_database)))
     = [(0, catalog_column ''_tables'' ''table_name'' ''TEXT''),
        (1, catalog_column ''_columns'' ''table_name'' ''TEXT''),
        (2, catalog_column ''_columns'' ''column_name'' ''TEXT''),
        (3, catalog_column ''_columns'' ''data_type'' ''TEXT'')]"
  by (simp add: storage_defs exec_defs example_defs)

section \<open>Statements the engine does not handle\<close>

text \<open>
  Claim C3, as stated, fails: a \<^verbatim>\<open>SHOW\<close> statement of an unrecognized kind makes
  \<^verbatim>\<open>execute\<close> throw.
\<close>

theorem show_unrecognized_throws:
  "fst (execute (kStmtShow show_unrecognized) empty_database)
     = Inl (SQLExecError ''unrecognized SHOW type'')"
  by (simp add: exec_defs example_defs)

text \<open>
  Claim C3, amended. For a statement of a kind the engine does not handle, and for a
  \<^verbatim>\<open>CREATE\<close> or \<^verbatim>\<open>DROP\<close> statement of a sub-kind it does not handle, \<^verbatim>\<open>execute\<close>
  returns a result that holds a message only, and the database is as before; for a
  \<^verbatim>\<open>SHOW\<close> statement of an unrecognized sub-kind it throws the execution error
  \<open>unrecognized SHOW type\<close>.
\<close>

theorem unhandled_statement_kinds:
  "execute (kStmtOther k) db
     = (Inr \<lparr>result_column_names = None, result_column_attributes = None,
             result_rows = None, message = ''not implemented''\<rparr>, db)
   \<and> execute (kStmtCreate (c\<lparr>create_type := Create_other k\<rparr>)) db
     = (Inr \<lparr>result_column_names = None, result_column_attributes = None,
             result_rows = None,
             message = ''Only CREATE TABLE and CREATE INDEX are implemented''\<rparr>, db)
   \<and> execute (kStmtDrop (d\<lparr>drop_type := Drop_other k\<rparr>)) db
     = (Inr \<lparr>result_column_names = None, result_column_attributes = None,
             result_rows = None,
             message = ''Only DROP TABLE and CREATE INDEX are implemented''\<rparr>, db)
   \<and> execute (kStmtShow (s\<lparr>show_type := Show_other k\<rparr>)) db
     = (Inl (SQLExecError ''unrecognized SHOW type''), db)"
  by (simp add: execute_def dispatch_def create_def drop_statement_def show_statement_def
      QueryResult_message_def)

section \<open>The predicate extractor\<close>

text \<open>What the extractor does reject: a node that is not an operator, and an equality
  whose right side is neither an integer nor a string literal.\<close>

lemma get_where_conjunction_not_operator:
  "expr_type e \<noteq> kExprOperator \<Longrightarrow>
   get_where_conjunction e = Inl (DbRelationError ''Invalid statement'')"
  by (cases e) simp

lemma get_where_conjunction_not_literal:
  "expr_type r \<noteq> kExprLiteralInt \<Longrightarrow> expr_type r \<noteq> kExprLiteralString \<Longrightarrow>
   \<exists>msg. get_where_conjunction (binary_op (column_ref c) SIMPLE_OP (CHR ''='') r)
     = Inl (DbRelationError msg)"
  by (simp add: binary_op_def column_ref_def)

text \<open>
  Claim C4. The extractor does not fail on \<^verbatim>\<open>a < 5\<close>, on \<^verbatim>\<open>a = 1 OR b = 2\<close> or on
  \<^verbatim>\<open>NOT (a = 1)\<close>: each gives the empty conjunction, which every row satisfies. It
  does not fail on \<^verbatim>\<open>"abc" = 1\<close> either, where the left side is a literal: it takes the
  literal's text as a column name.
\<close>

theorem get_where_conjunction_accepts_other_shapes:
  "get_where_conjunction where_less = Inr []
   \<and> get_where_conjunction where_or = Inr []
   \<and> get_where_conjunction where_not = Inr []
   \<and> get_where_conjunction where_literal_left = Inr [(''abc'', VInt 1)]"
  by (simp add: example_defs)

section \<open>Storage calls and the catalog relations\<close>

lemma storage_call_data: "stored_data (snd (storage_call db)) = stored_data db"
  by (simp add: storage_call_def stored_data_def split: list.splits)

lemma get_table_data: "get_table n db = (res, db') \<Longrightarrow> stored_data db' = stored_data db"
  by (auto simp: get_table_def storage_call_def stored_data_def
      split: list.splits option.splits if_splits)

lemma get_index_data: "get_index t i db = (res, db') \<Longrightarrow> stored_data db' = stored_data db"
  by (auto simp: get_index_def storage_call_def stored_data_def
      split: list.splits option.splits)

lemma index_create_catalog:
  "index_create ix db = (res, db') \<Longrightarrow>
   db_tables db' = db_tables db \<and> db_columns db' = db_columns db
   \<and> db_indices db' = db_indices db"
  by (auto simp: index_create_def storage_call_def split: list.splits option.splits)

lemma stored_data_indices: "stored_data db' = stored_data db \<Longrightarrow> db_indices db' = db_indices db"
  by (simp add: stored_data_def)

lemma stored_data_tables: "stored_data db' = stored_data db \<Longrightarrow> db_tables db' = db_tables db"
  by (simp add: stored_data_def)

lemma stored_data_columns: "stored_data db' = stored_data db \<Longrightarrow> db_columns db' = db_columns db"
  by (simp add: stored_data_def)

text \<open>Freshness of the handles of the catalog relations holds in the empty database and
  is kept by every insert and delete.\<close>

lemma handles_fresh_empty_database:
  "handles_fresh (db_tables empty_database) \<and> handles_fresh (db_columns empty_database)
   \<and> handles_fresh (db_indices empty_database)"
  by (simp add: empty_database_def handles_fresh_def empty_relation_def)

lemma handles_fresh_insert:
  "handles_fresh rel \<Longrightarrow>
   handles_fresh (rel\<lparr>rel_rows := rel_rows rel @ [(rel_next rel, row)],
                       rel_next := Suc (rel_next rel)\<rparr>)"
  by (fastforce simp: handles_fresh_def list_all_iff)

lemma handles_fresh_del:
  "handles_fresh rel \<Longrightarrow> handles_fresh (rel\<lparr>rel_rows := filter P (rel_rows rel)\<rparr>)"
  by (simp add: handles_fresh_def list_all_iff)

lemma rel_insert_fresh:
  "rel_insert r row db = (res, db') \<Longrightarrow>
   handles_fresh (db_tables db) \<and> handles_fresh (db_columns db)
     \<and> handles_fresh (db_indices db) \<Longrightarrow>
   handles_fresh (db_tables db') \<and> handles_fresh (db_columns db')
     \<and> handles_fresh (db_indices db')"
  by (auto simp: rel_insert_def storage_call_def lookup_relation_def store_relation_def
      handles_fresh_insert split: list.splits option.splits RelationId.splits)

lemma rel_del_fresh:
  "rel_del r h db = (res, db') \<Longrightarrow>
   handles_fresh (db_tables db) \<and> handles_fresh (db_columns db)
     \<and> handles_fresh (db_indices db) \<Longrightarrow>
   handles_fresh (db_tables db') \<and> handles_fresh (db_columns db')
     \<and> handles_fresh (db_indices db')"
  by (auto simp: rel_del_def storage_call_def lookup_relation_def store_relation_def
      handles_fresh_del split: list.splits option.splits RelationId.splits)

subsection \<open>Inserting into and deleting from \<^verbatim>\<open>_indices\<close>\<close>

lemma rel_insert_indices_Inr:
  "rel_insert Rel_indices row db = (Inr h, db') \<Longrightarrow>
   h = rel_next (db_indices db)
   \<and> rel_rows (db_indices db') = rel_rows (db_indices db) @ [(h, row)]
   \<and> rel_next (db_indices db') = Suc h"
  by (auto simp: rel_insert_def storage_call_def lookup_relation_def store_relation_def
      split: list.splits option.splits)

lemma rel_insert_indices_Inl:
  "rel_insert Rel_indices row db = (Inl e, db') \<Longrightarrow> db_indices db' = db_indices db"
  by (auto simp: rel_insert_def storage_call_def lookup_relation_def store_relation_def
      split: list.splits option.splits)

lemma rel_del_indices_Inr:
  "rel_del Rel_indices h db = (Inr u, db') \<Longrightarrow>
   rel_rows (db_indices db') = filter (\<lambda>p. fst p \<noteq> h) (rel_rows (db_indices db))"
  by (auto simp: rel_del_def storage_call_def lookup_relation_def store_relation_def
      split: list.splits option.splits)

lemma del_all_indices_Inr:
  "del_all Rel_indices hs db = (Inr u, db') \<Longrightarrow>
   rel_rows (db_indices db') = filter (\<lambda>p. fst p \<notin> set hs) (rel_rows (db_indices db))"
proof (induction hs arbitrary: db)
  case Nil
  then show ?case by simp
next
  case (Cons h hs)
  from Cons.prems obtain db1 where
    d: "rel_del Rel_indices h db = (Inr (), db1)" and
    r: "del_all Rel_indices hs db1 = (Inr u, db')"
    by (auto split: prod.splits sum.splits)
  have "rel_rows (db_indices db')
          = filter (\<lambda>p. fst p \<notin> set hs) (rel_rows (db_indices db1))"
    by (rule Cons.IH [OF r])
  also have "rel_rows (db_indices db1) = filter (\<lambda>p. fst p \<noteq> h) (rel_rows (db_indices db))"
    by (rule rel_del_indices_Inr [OF d])
  finally show ?case by (simp add: conj_commute)
qed

text \<open>Deleting handles that were issued after the rows of a relation leaves those rows.\<close>

lemma filter_new_handles:
  fixes old new :: "(Handle \<times> 'a) list"
  assumes "list_all (\<lambda>p. fst p < n) old" and "list_all (\<lambda>p. n \<le> fst p) new"
  shows "filter (\<lambda>p. fst p \<notin> fst ` set new) (old @ new) = old"
proof -
  have "fst p \<notin> fst ` set new" if "p \<in> set old" for p
  proof
    assume "fst p \<in> fst ` set new"
    then obtain q where q: "q \<in> set new" "fst q = fst p" by auto
    from assms(1) that have "fst p < n" by (simp add: list_all_iff)
    moreover from assms(2) q(1) have "n \<le> fst q" by (simp add: list_all_iff)
    ultimately show False using q(2) by simp
  qed
  then have "filter (\<lambda>p. fst p \<notin> fst ` set new) old = old"
    by (simp add: filter_id_conv)
  moreover have "filter (\<lambda>p. fst p \<notin> fst ` set new) new = []"
    by (auto simp: filter_empty_conv)
  ultimately show ?thesis by simp
qed

section \<open>CREATE INDEX\<close>

lemma index_row_update:
  "row = index_row s \<or> (\<exists>q c. row = index_entry s q c) \<Longrightarrow>
   AList.update ''column_name'' (VText c') (AList.update ''seq_in_index'' (VInt q') row)
     = index_entry s q' c'"
  by (auto simp: index_row_def index_entry_def)

text \<open>The rows a completed loop has inserted.\<close>

lemma insert_indices_rows_None:
  "insert_indices_rows cols row (word_of_nat k) hs db = ((None, hs'), db') \<Longrightarrow>
   row = index_row s \<or> (\<exists>q c. row = index_entry s q c) \<Longrightarrow>
   rel_rows (db_indices db')
     = rel_rows (db_indices db) @
       zip [rel_next (db_indices db)..<rel_next (db_indices db) + length cols]
         (map (\<lambda>(i, c). index_entry s (word_of_nat i) c) (enumerate (Suc k) cols))"
proof (induction cols arbitrary: row k hs db)
  case Nil
  then show ?case by simp
next
  case (Cons c cols)
  let ?row2 = "AList.update ''column_name'' (VText c)
                 (AList.update ''seq_in_index'' (VInt (word_of_nat k + 1)) row)"
  have row2: "?row2 = index_entry s (word_of_nat (Suc k)) c"
    using index_row_update [OF Cons.prems(2)] by (simp add: add.commute)
  from Cons.prems(1) obtain h db1 where
    ins: "rel_insert Rel_indices ?row2 db = (Inr h, db1)" and
    rest: "insert_indices_rows cols ?row2 (word_of_nat (Suc k)) (hs @ [h]) db1
             = ((None, hs'), db')"
    by (auto simp: Let_def add.commute split: prod.splits sum.splits)
  have shape: "?row2 = index_row s \<or> (\<exists>q c. ?row2 = index_entry s q c)"
    using row2 by blast
  note i = rel_insert_indices_Inr [OF ins]
  have "rel_rows (db_indices db')
          = rel_rows (db_indices db1) @
            zip [rel_next (db_indices db1)..<rel_next (db_indices db1) + length cols]
              (map (\<lambda>(i, c). index_entry s (word_of_nat i) c) (enumerate (Suc (Suc k)) cols))"
    by (rule Cons.IH [OF rest shape])
  moreover
  have "[rel_next (db_indices db)..<rel_next (db_indices db) + length (c # cols)]
          = rel_next (db_indices db)
            # [rel_next (db_indices db1)..<rel_next (db_indices db1) + length cols]"
    using i by (simp add: upt_conv_Cons del: upt_Suc)
  ultimately show ?case
    using i row2 by (simp del: upt_Suc)
qed

text \<open>The handles a loop has collected, completed or not: those of the rows it has
  inserted, all issued at or after the call.\<close>

lemma insert_indices_rows_handles:
  "insert_indices_rows cols row seq hs db = ((res, hs'), db') \<Longrightarrow>
   \<exists>new. rel_rows (db_indices db') = rel_rows (db_indices db) @ new
        \<and> hs' = hs @ map fst new
        \<and> list_all (\<lambda>p. rel_next (db_indices db) \<le> fst p) new"
proof (induction cols arbitrary: row seq hs db)
  case Nil
  then show ?case by simp
next
  case (Cons c cols)
  let ?row2 = "AList.update ''column_name'' (VText c)
                 (AList.update ''seq_in_index'' (VInt (seq + 1)) row)"
  show ?case
  proof (cases "rel_insert Rel_indices ?row2 db")
    case (Pair r db1)
    show ?thesis
    proof (cases r)
      case (Inl e)
      with Pair Cons.prems have "db' = db1" "hs' = hs"
        by (auto simp: Let_def)
      moreover have "db_indices db1 = db_indices db"
        using Pair Inl by (auto dest: rel_insert_indices_Inl)
      ultimately show ?thesis by simp
    next
      case (Inr h)
      with Pair Cons.prems have
        rest: "insert_indices_rows cols ?row2 (seq + 1) (hs @ [h]) db1 = ((res, hs'), db')"
        by (auto simp: Let_def)
      from Pair Inr have ins: "rel_insert Rel_indices ?row2 db = (Inr h, db1)" by simp
      note i = rel_insert_indices_Inr [OF ins]
      from Cons.IH [OF rest] obtain new where
        n: "rel_rows (db_indices db') = rel_rows (db_indices db1) @ new"
           "hs' = (hs @ [h]) @ map fst new"
           "list_all (\<lambda>p. rel_next (db_indices db1) \<le> fst p) new"
        by blast
      have "list_all (\<lambda>p. rel_next (db_indices db) \<le> fst p) ((h, ?row2) # new)"
        using n(3) i by (auto simp: list_all_iff)
      moreover have "rel_rows (db_indices db') = rel_rows (db_indices db) @ (h, ?row2) # new"
        using n(1) i by simp
      moreover have "hs' = hs @ map fst ((h, ?row2) # new)"
        using n(2) by simp
      ultimately show ?thesis by blast
    qed
  qed
qed

lemma create_index_inner_None:
  assumes "create_index_inner s db = ((None, hs), db')"
  shows "rel_rows (db_indices db')
     = rel_rows (db_indices db) @
       zip [rel_next (db_indices db)..<rel_next (db_indices db) + length (indexColumns s)]
         (map (\<lambda>(i, c). index_entry s (word_of_nat i) c) (enumerate 1 (indexColumns s)))"
proof -
  from assms obtain db1 ix db2 where
    loop: "insert_indices_rows (indexColumns s) (index_row s) 0 [] db = ((None, hs), db1)" and
    gi: "get_index (create_tableName s) (create_indexName s) db1 = (Inr ix, db2)" and
    ic: "index_create ix db2 = (Inr (), db')"
    by (auto simp: create_index_inner_def split: prod.splits sum.splits option.splits)
  have "db_indices db' = db_indices db1"
    using index_create_catalog [OF ic] stored_data_indices [OF get_index_data [OF gi]]
    by simp
  moreover have "rel_rows (db_indices db1)
     = rel_rows (db_indices db) @
       zip [rel_next (db_indices db)..<rel_next (db_indices db) + length (indexColumns s)]
         (map (\<lambda>(i, c). index_entry s (word_of_nat i) c)
            (enumerate (Suc 0) (indexColumns s)))"
    using insert_indices_rows_None [of "indexColumns s" "index_row s" 0 "[]" db hs db1 s] loop
    by simp
  ultimately show ?thesis by simp
qed

lemma create_index_inner_handles:
  assumes "create_index_inner s db = ((res, hs), db')"
  shows "\<exists>new. rel_rows (db_indices db') = rel_rows (db_indices db) @ new
        \<and> hs = map fst new
        \<and> list_all (\<lambda>p. rel_next (db_indices db) \<le> fst p) new"
proof -
  obtain r1 hs1 db1 where
    loop: "insert_indices_rows (indexColumns s) (index_row s) 0 [] db = ((r1, hs1), db1)"
    by (metis prod.exhaust)
  have same: "db_indices db' = db_indices db1 \<and> hs = hs1"
  proof (cases r1)
    case (Some e)
    with loop assms show ?thesis by (simp add: create_index_inner_def)
  next
    case None
    obtain r2 db2 where
      gi: "get_index (create_tableName s) (create_indexName s) db1 = (r2, db2)"
      by (metis prod.exhaust)
    note g = stored_data_indices [OF get_index_data [OF gi]]
    show ?thesis
    proof (cases r2)
      case (Inl e)
      with None loop gi assms g show ?thesis by (simp add: create_index_inner_def)
    next
      case (Inr ix)
      obtain r3 db3 where ic: "index_create ix db2 = (r3, db3)"
        by (metis prod.exhaust)
      with None Inr loop gi assms g index_create_catalog [OF ic] show ?thesis
        by (cases r3) (simp_all add: create_index_inner_def)
    qed
  qed
  from insert_indices_rows_handles [OF loop] same show ?thesis by simp
qed

text \<open>
  Claim C9. A \<^verbatim>\<open>CREATE INDEX\<close> that succeeds has appended to \<^verbatim>\<open>_indices\<close> exactly one
  row per listed column, in the listed order, under consecutive new handles: the row
  for the \<open>i\<close>-th column (counting from 1) holds the table name, the index name, the
  index type, \<open>is_unique\<close> true exactly when the index type is \<open>BTREE\<close>, \<open>seq_in_index = i\<close>
  and the column name.
\<close>

theorem create_index_inserts_one_row_per_column:
  assumes "create_index s db = (Inr r, db')"
  shows "rel_rows (db_indices db')
     = rel_rows (db_indices db) @
       zip [rel_next (db_indices db)..<rel_next (db_indices db) + length (indexColumns s)]
         (map (\<lambda>(i, c). index_entry s (word_of_nat i) c) (enumerate 1 (indexColumns s)))"
proof -
  from assms obtain table db1 hs where
    gt: "get_table (create_tableName s) db = (Inr table, db1)" and
    body: "create_index_inner s db1 = ((None, hs), db')"
    by (auto simp: create_index_def Let_def split: prod.splits sum.splits option.splits)
  have "db_indices db1 = db_indices db"
    by (rule stored_data_indices [OF get_table_data [OF gt]])
  with create_index_inner_None [OF body] show ?thesis by simp
qed

theorem create_index_inserts_one_row_per_column_witness:
  "create_index create_ix db_created
     = (Inr (QueryResult_message ''created index ix''),
        snd (create_index create_ix db_created))
   \<and> rel_rows (db_indices db_created) = []
   \<and> rel_rows (db_indices (snd (create_index create_ix db_created)))
     = [(0, [(''table_name'', VText ''t''), (''index_name'', VText ''ix''),
             (''index_type'', VText ''BTREE''), (''is_unique'', VBool True),
             (''seq_in_index'', VInt 1), (''column_name'', VText ''a'')]),
        (1, [(''table_name'', VText ''t''), (''index_name'', VText ''ix''),
             (''index_type'', VText ''BTREE''), (''is_unique'', VBool True),
             (''seq_in_index'', VInt 2), (''column_name'', VText ''b'')])]"
proof -
  have ok: "create_index create_ix db_created
     = (Inr (QueryResult_message ''created index ix''),
        snd (create_index create_ix db_created))"
    by (simp add: db_created_eq storage_defs exec_defs example_defs)
  have cols: "indexColumns create_ix = [''a'', ''b'']"
    by (simp add: create_ix_def)
  show ?thesis
    using create_index_inserts_one_row_per_column [OF ok] ok
    by (simp add: cols db_created_eq empty_relation_def index_entry_def create_ix_def
        enumerate_eq_zip upt_conv_Cons)
qed

text \<open>
  Claim C7, as stated, fails: when the second insert into \<^verbatim>\<open>_indices\<close> fails and the
  \<^verbatim>\<open>del\<close> of the rollback fails too, the statement fails with the error of the insert,
  and the row of the first insert stays in \<^verbatim>\<open>_indices\<close>.
\<close>

theorem create_index_rollback_failure:
  "fst (execute (kStmtCreate create_ix) db_index_disk_full_io_error)
     = Inl (SQLExecError ''DbRelationError: disk full'')
   \<and> rel_rows (db_indices db_index_disk_full_io_error) = []
   \<and> rel_rows (db_indices (snd (execute (kStmtCreate create_ix) db_index_disk_full_io_error)))
     = [(0, index_entry create_ix 1 ''a'')]"
  by (simp add: db_index_disk_full_io_error_def db_created_eq storage_defs exec_defs
      example_defs index_entry_def)

text \<open>
  Claim C7, amended. When the \<^verbatim>\<open>try\<close> block of \<^verbatim>\<open>create_index\<close> fails with an error,
  after inserting rows into \<^verbatim>\<open>_indices\<close> or not, \<^verbatim>\<open>create_index\<close> throws that error,
  whatever the deletions of the rollback do; and when these deletions succeed,
  \<^verbatim>\<open>_indices\<close> holds the rows it held before the statement.
\<close>

theorem create_index_rollback:
  assumes fresh: "handles_fresh (db_indices db)"
    and gt: "get_table (create_tableName s) db = (Inr table, db1)"
    and chk: "check_index_columns (indexColumns s) (column_names table) (create_tableName s)
                = Inr ()"
    and body: "create_index_inner s db1 = ((Some e, i_handles), db2)"
  shows "fst (create_index s db) = Inl e
    \<and> (del_all Rel_indices i_handles db2 = (Inr (), db3) \<longrightarrow>
         snd (create_index s db) = db3
         \<and> rel_rows (db_indices db3) = rel_rows (db_indices db))"
proof -
  have res: "create_index s db = (Inl e, snd (del_all Rel_indices i_handles db2))"
    using gt chk body by (simp add: create_index_def)
  have same: "db_indices db1 = db_indices db"
    by (rule stored_data_indices [OF get_table_data [OF gt]])
  from create_index_inner_handles [OF body] same obtain new where
    n: "rel_rows (db_indices db2) = rel_rows (db_indices db) @ new"
       "i_handles = map fst new"
       "list_all (\<lambda>p. rel_next (db_indices db) \<le> fst p) new"
    by auto
  have "rel_rows (db_indices db3) = rel_rows (db_indices db)"
    if d: "del_all Rel_indices i_handles db2 = (Inr (), db3)"
  proof -
    have "rel_rows (db_indices db3)
            = filter (\<lambda>p. fst p \<notin> fst ` set new) (rel_rows (db_indices db) @ new)"
      using del_all_indices_Inr [OF d] n by simp
    also have "\<dots> = rel_rows (db_indices db)"
      using fresh n(3) by (intro filter_new_handles) (simp_all add: handles_fresh_def)
    finally show ?thesis .
  qed
  with res show ?thesis by auto
qed

theorem create_index_rollback_witness:
  "handles_fresh (db_indices db_index_disk_full)
   \<and> fst (create_index create_ix db_index_disk_full) = Inl (DbRelationError ''disk full'')
   \<and> rel_rows (db_indices (snd (create_index create_ix db_index_disk_full)))
       = rel_rows (db_indices db_index_disk_full)"
proof -
  let ?db1 = "db_created\<lparr>db_faults := [None, Some ''disk full'']\<rparr>"
  let ?db2 = "db_created\<lparr>db_indices := \<lparr>rel_rows = [(0, index_entry create_ix 1 ''a'')],
                                           rel_next = 1\<rparr>,
                          db_faults := []\<rparr>"
  let ?db3 = "db_created\<lparr>db_indices := \<lparr>rel_rows = [], rel_next = 1\<rparr>, db_faults := []\<rparr>"
  have fresh: "handles_fresh (db_indices db_index_disk_full)"
    by (simp add: db_index_disk_full_def db_created_eq handles_fresh_def empty_relation_def)
  have gt: "get_table (create_tableName create_ix) db_index_disk_full
              = (Inr \<lparr>table_id = Rel_user ''t'', column_names = [''a'', ''b''],
                      column_attributes = [Attr_INT, Attr_TEXT]\<rparr>, ?db1)"
    by (simp add: db_index_disk_full_def db_created_eq storage_defs exec_defs example_defs)
  have chk: "check_index_columns (indexColumns create_ix)
               (column_names \<lparr>table_id = Rel_user ''t'', column_names = [''a'', ''b''],
                               column_attributes = [Attr_INT, Attr_TEXT]\<rparr>)
               (create_tableName create_ix) = Inr ()"
    by (simp add: create_ix_def)
  have body: "create_index_inner create_ix ?db1
                = ((Some (DbRelationError ''disk full''), [0]), ?db2)"
    by (simp add: db_created_eq storage_defs exec_defs example_defs index_entry_def)
  have roll: "del_all Rel_indices [0] ?db2 = (Inr (), ?db3)"
    by (simp add: db_created_eq storage_defs exec_defs)
  show ?thesis
    using create_index_rollback [OF fresh gt chk body, of ?db3] roll fresh
    by (simp add: db_index_disk_full_def db_created_eq empty_relation_def)
qed

section \<open>CREATE TABLE\<close>

subsection \<open>Storage calls on \<^verbatim>\<open>_tables\<close> and \<^verbatim>\<open>_columns\<close>\<close>













subsection \<open>The column definitions and the loop over them\<close>







section \<open>SHOW TABLES\<close>





text \<open>After \<^verbatim>\<open>DROP TABLE _indices\<close> two rows are scanned and both are left out; the
  count wraps around.\<close>

lemma show_tables_count_wraps:
  "fst (show_tables (snd (execute (kStmtDrop drop_indices_table) empty_database)))
     = Inr \<lparr>result_column_names = Some [''table_name''],
            result_column_attributes = Some [Attr_TEXT],
            result_rows = Some [],
            message = ''successfully returned 18446744073709551615 rows''\<rparr>"
  by (simp add: storage_defs exec_defs example_defs unsigned_minus_1_eq_mask mask_eq_exp_minus_1)

section \<open>INSERT\<close>

lemma get_column_type_unknown:
  "column \<notin> set cn \<Longrightarrow>
   get_column_type column cn ct = Inl (SQLExecError (''unkown column '' @ column))"
  by (induction column cn ct rule: get_column_type.induct) auto

lemma get_column_type_known:
  "get_column_type column cn ct = Inr t \<Longrightarrow> column \<in> set cn"
  by (induction column cn ct rule: get_column_type.induct) (auto split: if_splits)

text \<open>The loop of \<^verbatim>\<open>insert\<close> reads of each literal its \<^verbatim>\<open>ival\<close> and its \<^verbatim>\<open>name\<close>, never
  its kind.\<close>

lemma insert_row_ignores_kind:
  "map expr_ival vs = map expr_ival vs' \<Longrightarrow> map expr_name vs = map expr_name vs' \<Longrightarrow>
   insert_row cols vs cn ct row = insert_row cols vs' cn ct row"
proof (induction cols vs cn ct row arbitrary: vs' rule: insert_row.induct)
  case (1 cols cn ct row)
  then show ?case by simp
next
  case (2 v vs cn ct row)
  then show ?case by (cases vs') auto
next
  case (3 column cols v vs cn ct row)
  from "3.prems" obtain v' vs'' where
    vs': "vs' = v' # vs''" "expr_ival v = expr_ival v'" "expr_name v = expr_name v'"
         "map expr_ival vs = map expr_ival vs''" "map expr_name vs = map expr_name vs''"
    by (cases vs') auto
  show ?case
  proof (cases "get_column_type column cn ct")
    case (Inl e)
    then show ?thesis using vs' by simp
  next
    case (Inr t)
    show ?thesis
    proof (cases t)
      case Attr_INT
      with Inr "3.IH"(1) [OF Inr Attr_INT vs'(4,5)] vs' show ?thesis by simp
    next
      case Attr_TEXT
      show ?thesis
      proof (cases "expr_name v")
        case None
        with Inr Attr_TEXT vs' show ?thesis by simp
      next
        case (Some n)
        then have "expr_name v' = Some n" using vs'(3) by simp
        with Some Inr Attr_TEXT "3.IH"(2) [OF Inr Attr_TEXT Some vs'(4,5)] vs'(1,2)
        show ?thesis by simp
      qed
    next
      case Attr_BOOLEAN
      with Inr vs' show ?thesis by simp
    qed
  qed
qed

text \<open>The loop raises the data type error only at a listed column whose declared type is
  neither INT nor TEXT.\<close>

lemma insert_row_data_type_error:
  "insert_row cols vs cn ct row
     = Inl (SQLExecError ''don't know how to handle data type in INSERT'') \<Longrightarrow>
   \<exists>c t. c \<in> set cols \<and> get_column_type c cn ct = Inr t \<and> t \<noteq> Attr_INT \<and> t \<noteq> Attr_TEXT"
proof (induction cols vs cn ct row rule: insert_row.induct)
  case (1 cols cn ct row)
  then show ?case by simp
next
  case (2 v vs cn ct row)
  then show ?case by simp
next
  case (3 column cols v vs cn ct row)
  show ?case
  proof (cases "get_column_type column cn ct")
    case (Inl e)
    with "3.prems" have "e = SQLExecError ''don't know how to handle data type in INSERT''"
      by simp
    moreover from Inl have "e = MemoryFault \<or> e = SQLExecError (''unkown column '' @ column)"
      by (induction column cn ct rule: get_column_type.induct) (auto split: if_splits)
    ultimately show ?thesis by auto
  next
    case (Inr t)
    show ?thesis
    proof (cases t)
      case Attr_INT
      with Inr "3.prems" "3.IH"(1) [OF Inr Attr_INT] show ?thesis by auto
    next
      case Attr_TEXT
      show ?thesis
      proof (cases "expr_name v")
        case None
        with Inr Attr_TEXT "3.prems" show ?thesis by simp
      next
        case (Some n)
        with Inr Attr_TEXT "3.prems" "3.IH"(2) [OF Inr Attr_TEXT Some] show ?thesis by auto
      qed
    next
      case Attr_BOOLEAN
      with Inr show ?thesis by auto
    qed
  qed
qed

text \<open>Storage calls throw storage errors only.\<close>

lemma get_table_error: "get_table n db = (Inl e, db') \<Longrightarrow> \<exists>m. e = DbRelationError m"
  by (auto simp: get_table_def storage_call_def split: list.splits option.splits if_splits)

lemma rel_insert_error: "rel_insert r row db = (Inl e, db') \<Longrightarrow> \<exists>m. e = DbRelationError m"
  by (auto simp: rel_insert_def storage_call_def no_relation_def
      split: list.splits option.splits)

lemma get_index_names_error:
  "get_index_names n db = (Inl e, db') \<Longrightarrow> \<exists>m. e = DbRelationError m"
  by (auto simp: get_index_names_def storage_call_def split: list.splits option.splits)

lemma get_index_error: "get_index t i db = (Inl e, db') \<Longrightarrow> \<exists>m. e = DbRelationError m"
  by (auto simp: get_index_def storage_call_def split: list.splits option.splits)

lemma index_insert_error: "index_insert ix h db = (Inl e, db') \<Longrightarrow> \<exists>m. e = DbRelationError m"
  by (auto simp: index_insert_def storage_call_def no_index_def
      split: list.splits option.splits)

lemma insert_into_indices_error:
  "insert_into_indices t names h db = (Inl e, db') \<Longrightarrow> \<exists>m. e = DbRelationError m"
proof (induction names arbitrary: db)
  case Nil
  then show ?case by simp
next
  case (Cons n names)
  show ?case
  proof (cases "get_index t n db")
    case (Pair r1 db1)
    show ?thesis
    proof (cases r1)
      case (Inl e1)
      with Pair Cons.prems get_index_error [of t n db e1 db1] show ?thesis by simp
    next
      case (Inr ix)
      show ?thesis
      proof (cases "index_insert ix h db1")
        case p2: (Pair r2 db2)
        show ?thesis
        proof (cases r2)
          case (Inl e2)
          with Pair Inr p2 Cons.prems index_insert_error [of ix h db1 e2 db2] show ?thesis
            by simp
        next
          case i2: (Inr u)
          with Pair Inr p2 Cons.prems have "insert_into_indices t names h db2 = (Inl e, db')"
            by simp
          then show ?thesis by (rule Cons.IH)
        qed
      qed
    qed
  qed
qed

text \<open>An error of \<^verbatim>\<open>insert\<close> that is not a storage error comes from the loop over the
  values, before the row is inserted.\<close>

lemma insert_error_before_storage:
  assumes "insert_statement s db = (Inl e, db')" and "\<forall>m. e \<noteq> DbRelationError m" and "e \<noteq> MemoryFault"
  shows "\<exists>cols table.
      insert_columns s = Some cols
    \<and> get_table (insert_tableName s) db = (Inr table, db')
    \<and> insert_row cols (insert_values s) (column_names table) (column_attributes table) []
        = Inl e"
proof -
  from assms(1,3) obtain cols where cols: "insert_columns s = Some cols"
    by (cases "insert_columns s") (auto simp: insert_statement_def)
  obtain r1 db1 where gt: "get_table (insert_tableName s) db = (r1, db1)"
    by (metis prod.exhaust)
  from assms(1,2) cols gt get_table_error [of "insert_tableName s" db _ db1]
  obtain table where t: "r1 = Inr table"
    by (cases r1) (auto simp: insert_statement_def)
  let ?loop = "insert_row cols (insert_values s) (column_names table)
                 (column_attributes table) []"
  have "?loop = Inl e \<and> db' = db1"
  proof (cases ?loop)
    case (Inl e1)
    with assms(1) cols gt t show ?thesis by (simp add: insert_statement_def)
  next
    case (Inr row)
    obtain r2 db2 where ri: "rel_insert (table_id table) row db1 = (r2, db2)"
      by (metis prod.exhaust)
    show ?thesis
    proof (cases r2)
      case (Inl e2)
      with assms(1,2) cols gt t Inr ri rel_insert_error [of "table_id table" row db1 e2 db2]
      show ?thesis by (auto simp: insert_statement_def)
    next
      case h: (Inr handle)
      obtain r3 db3 where gi: "get_index_names (insert_tableName s) db2 = (r3, db3)"
        by (metis prod.exhaust)
      show ?thesis
      proof (cases r3)
        case (Inl e3)
        with assms(1,2) cols gt t Inr ri h gi
          get_index_names_error [of "insert_tableName s" db2 e3 db3]
        show ?thesis by (auto simp: insert_statement_def)
      next
        case n: (Inr names)
        obtain r4 db4 where
          ii: "insert_into_indices (insert_tableName s) names handle db3 = (r4, db4)"
          by (metis prod.exhaust)
        with assms(1,2) cols gt t Inr ri h gi n
          insert_into_indices_error [of "insert_tableName s" names handle db3 _ db4]
        show ?thesis by (cases r4) (auto simp: insert_statement_def)
      qed
    qed
  qed
  with cols gt t show ?thesis by simp
qed

text \<open>
  Claim C5, as stated, fails: \<^verbatim>\<open>INSERT INTO t (a) VALUES ("x")\<close> is accepted although
  \<open>a\<close> is declared INT, and a row is inserted that holds the \<^verbatim>\<open>ival\<close> of the string
  literal.
\<close>

theorem insert_accepts_string_for_int:
  "fst (execute (kStmtInsert insert_string_for_int) db_created)
     = Inr (QueryResult_message ''successfully inserted 1 row into t'')
   \<and> db_heap (snd (execute (kStmtInsert insert_string_for_int) db_created)) ''t''
     = Some \<lparr>rel_rows = [(0, [(''a'', VInt 0)])], rel_next = 1\<rparr>"
  by (simp add: db_created_eq storage_defs exec_defs example_defs)

text \<open>
  Claim C5, amended. \<^verbatim>\<open>INSERT\<close> converts each supplied value by the declared type of
  its column alone: for an INT column it stores the integer field of the literal, for a
  TEXT column its string field, and for a column of any other declared type it raises
  the error \<open>don't know how to handle data type in INSERT\<close>. So the outcome depends on
  the integer and string fields of the literals, not on their kinds; and that error is
  raised only when a listed column has a declared type that is neither INT nor TEXT,
  and then no row is inserted: the stored data are as before.
\<close>

theorem insert_converts_by_declared_type:
  "(get_column_type c cn ct = Inr Attr_INT \<longrightarrow>
      insert_row (c # cols) (v # vs) cn ct row
        = insert_row cols vs cn ct (AList.update c (VInt (ucast (expr_ival v))) row))
   \<and> (get_column_type c cn ct = Inr Attr_TEXT \<longrightarrow> expr_name v = Some n \<longrightarrow>
      insert_row (c # cols) (v # vs) cn ct row
        = insert_row cols vs cn ct (AList.update c (VText n) row))
   \<and> (get_column_type c cn ct = Inr Attr_BOOLEAN \<longrightarrow>
      insert_row (c # cols) (v # vs) cn ct row
        = Inl (SQLExecError ''don't know how to handle data type in INSERT''))
   \<and> (map expr_ival vs = map expr_ival vs' \<longrightarrow> map expr_name vs = map expr_name vs' \<longrightarrow>
      insert_statement (s\<lparr>insert_values := vs\<rparr>) db
        = insert_statement (s\<lparr>insert_values := vs'\<rparr>) db)
   \<and> (fst (insert_statement s db)
         = Inl (SQLExecError ''don't know how to handle data type in INSERT'')
      \<longrightarrow> stored_data (snd (insert_statement s db)) = stored_data db
        \<and> (\<exists>cols table db1 c t.
              insert_columns s = Some cols
            \<and> get_table (insert_tableName s) db = (Inr table, db1)
            \<and> c \<in> set cols
            \<and> get_column_type c (column_names table) (column_attributes table) = Inr t
            \<and> t \<noteq> Attr_INT \<and> t \<noteq> Attr_TEXT))"
proof (intro conjI impI)
  assume "get_column_type c cn ct = Inr Attr_INT"
  then show "insert_row (c # cols) (v # vs) cn ct row
        = insert_row cols vs cn ct (AList.update c (VInt (ucast (expr_ival v))) row)"
    by simp
next
  assume "get_column_type c cn ct = Inr Attr_TEXT" "expr_name v = Some n"
  then show "insert_row (c # cols) (v # vs) cn ct row
        = insert_row cols vs cn ct (AList.update c (VText n) row)"
    by simp
next
  assume "get_column_type c cn ct = Inr Attr_BOOLEAN"
  then show "insert_row (c # cols) (v # vs) cn ct row
        = Inl (SQLExecError ''don't know how to handle data type in INSERT'')"
    by simp
next
  assume "map expr_ival vs = map expr_ival vs'" "map expr_name vs = map expr_name vs'"
  then have "insert_row cols vs cn ct [] = insert_row cols vs' cn ct []" for cols cn ct
    by (rule insert_row_ignores_kind)
  then show "insert_statement (s\<lparr>insert_values := vs\<rparr>) db
               = insert_statement (s\<lparr>insert_values := vs'\<rparr>) db"
    by (simp add: insert_statement_def Let_def
        cong: option.case_cong prod.case_cong sum.case_cong)
next
  let ?e = "SQLExecError ''don't know how to handle data type in INSERT''"
  assume "fst (insert_statement s db) = Inl ?e"
  then have f: "insert_statement s db = (Inl ?e, snd (insert_statement s db))"
    by (metis prod.collapse)
  from insert_error_before_storage [OF f] obtain cols table where
    c: "insert_columns s = Some cols"
       "get_table (insert_tableName s) db = (Inr table, snd (insert_statement s db))"
       "insert_row cols (insert_values s) (column_names table) (column_attributes table) []
          = Inl ?e"
    by auto
  show "stored_data (snd (insert_statement s db)) = stored_data db"
    by (rule get_table_data [OF c(2)])
  from insert_row_data_type_error [OF c(3)] c(1,2)
  show "\<exists>cols table db1 c t.
              insert_columns s = Some cols
            \<and> get_table (insert_tableName s) db = (Inr table, db1)
            \<and> c \<in> set cols
            \<and> get_column_type c (column_names table) (column_attributes table) = Inr t
            \<and> t \<noteq> Attr_INT \<and> t \<noteq> Attr_TEXT"
    by blast
qed

theorem insert_converts_by_declared_type_witness:
  "insert_row [''a''] [literal_string ''x''] [''a'', ''b''] [Attr_INT, Attr_TEXT] []
     = Inr [(''a'', VInt 0)]
   \<and> insert_row [''b''] [literal_string ''x''] [''a'', ''b''] [Attr_INT, Attr_TEXT] []
     = Inr [(''b'', VText ''x'')]
   \<and> insert_row [''is_unique''] [literal_int 1] (fst indices_schema) (snd indices_schema) []
     = Inl (SQLExecError ''don't know how to handle data type in INSERT'')
   \<and> insert_statement (insert_string_for_int\<lparr>insert_values := [literal_string ''x'']\<rparr>)
       db_created
     = insert_statement
         (insert_string_for_int
            \<lparr>insert_values :=
               [Expr kExprLiteralInt None None (Some ''x'') 0 SIMPLE_OP (CHR 0x00)]\<rparr>)
         db_created
   \<and> fst (insert_statement insert_boolean_column db_created)
       = Inl (SQLExecError ''don't know how to handle data type in INSERT'')
   \<and> stored_data (snd (insert_statement insert_boolean_column db_created))
       = stored_data db_created"
proof -
  let ?k = "Expr kExprLiteralInt None None (Some ''x'') 0 SIMPLE_OP (CHR 0x00)"
  have types:
    "get_column_type ''a'' [''a'', ''b''] [Attr_INT, Attr_TEXT] = Inr Attr_INT"
    "get_column_type ''b'' [''a'', ''b''] [Attr_INT, Attr_TEXT] = Inr Attr_TEXT"
    "get_column_type ''is_unique'' (fst indices_schema) (snd indices_schema)
       = Inr Attr_BOOLEAN"
    "expr_name (literal_string ''x'') = Some ''x''"
    "expr_ival (literal_string ''x'') = 0"
    by (simp_all add: indices_schema_def literal_string_def)
  have fields:
    "map expr_ival [literal_string ''x''] = map expr_ival [?k]"
    "map expr_name [literal_string ''x''] = map expr_name [?k]"
    by (simp_all add: literal_string_def)
  have err: "fst (insert_statement insert_boolean_column db_created)
       = Inl (SQLExecError ''don't know how to handle data type in INSERT'')"
    by (simp add: db_created_eq storage_defs exec_defs example_defs)
  note int_column =
    insert_converts_by_declared_type
      [where c = "''a''" and cn = "[''a'', ''b'']" and ct = "[Attr_INT, Attr_TEXT]"
         and cols = "[]" and v = "literal_string ''x''" and vs = "[]" and row = "[]"
         and n = "''x''" and vs' = "[]" and s = insert_string_for_int and db = db_created]
  note text_column =
    insert_converts_by_declared_type
      [where c = "''b''" and cn = "[''a'', ''b'']" and ct = "[Attr_INT, Attr_TEXT]"
         and cols = "[]" and v = "literal_string ''x''" and vs = "[]" and row = "[]"
         and n = "''x''" and vs' = "[]" and s = insert_string_for_int and db = db_created]
  note boolean_column =
    insert_converts_by_declared_type
      [where c = "''is_unique''" and cn = "fst indices_schema" and ct = "snd indices_schema"
         and cols = "[]" and v = "literal_int 1" and vs = "[]" and row = "[]"
         and n = "''x''" and vs' = "[]" and s = insert_boolean_column and db = db_created]
  note kinds =
    insert_converts_by_declared_type
      [where c = "''a''" and cn = "[''a'', ''b'']" and ct = "[Attr_INT, Attr_TEXT]"
         and cols = "[]" and v = "literal_string ''x''" and vs = "[literal_string ''x'']"
         and row = "[]" and n = "''x''" and vs' = "[?k]" and s = insert_string_for_int
         and db = db_created]
  show ?thesis
    using int_column text_column boolean_column kinds types fields err
    by simp
qed

text \<open>Once the values before a position are accepted, the loop goes on from that
  position.\<close>

lemma insert_row_prefix:
  "insert_row (take i cols) (take i vs) cn ct row0 = Inr row \<Longrightarrow>
   i \<le> length cols \<Longrightarrow> i \<le> length vs \<Longrightarrow>
   insert_row cols vs cn ct row0 = insert_row (drop i cols) (drop i vs) cn ct row"
proof (induction i arbitrary: cols vs row0)
  case 0
  then show ?case by simp
next
  case (Suc i)
  from Suc.prems(2,3) obtain c cs v vs' where
    l: "cols = c # cs" "vs = v # vs'" "i \<le> length cs" "i \<le> length vs'"
    by (cases cols; cases vs) auto
  show ?case
  proof (cases "get_column_type c cn ct")
    case (Inl e)
    with Suc.prems(1) l show ?thesis by simp
  next
    case (Inr t)
    show ?thesis
    proof (cases t)
      case Attr_INT
      with Inr Suc.prems(1) l have
        "insert_row (take i cs) (take i vs') cn ct
           (AList.update c (VInt (ucast (expr_ival v))) row0) = Inr row"
        by simp
      from Suc.IH [OF this l(3,4)] Inr Attr_INT l show ?thesis by simp
    next
      case Attr_TEXT
      show ?thesis
      proof (cases "expr_name v")
        case None
        with Inr Attr_TEXT Suc.prems(1) l show ?thesis by simp
      next
        case (Some n)
        with Inr Attr_TEXT Suc.prems(1) l have
          "insert_row (take i cs) (take i vs') cn ct (AList.update c (VText n) row0) = Inr row"
          by simp
        from Suc.IH [OF this l(3,4)] Inr Attr_TEXT Some l show ?thesis by simp
      qed
    next
      case Attr_BOOLEAN
      with Inr Suc.prems(1) l show ?thesis by simp
    qed
  qed
qed

text \<open>
  Claim C10, as stated, fails: \<^verbatim>\<open>INSERT INTO t (a, zzz) VALUES (1)\<close> lists the column
  \<open>zzz\<close>, which \<open>t\<close> does not have, and supplies one value; the loop runs over the
  values, never looks at \<open>zzz\<close>, and the row is inserted.
\<close>

theorem insert_unknown_column_without_value:
  "fst (execute (kStmtInsert insert_one_value) db_created)
     = Inr (QueryResult_message ''successfully inserted 1 row into t'')
   \<and> db_heap db_created ''t'' = Some \<lparr>rel_rows = [], rel_next = 0\<rparr>
   \<and> db_heap (snd (execute (kStmtInsert insert_one_value) db_created)) ''t''
     = Some \<lparr>rel_rows = [(0, [(''a'', VInt 1)])], rel_next = 1\<rparr>"
  by (simp add: db_created_eq storage_defs exec_defs example_defs)

text \<open>
  Claim C10, amended. When the relation is resolved, the column listed at a position
  that has a value is not in its schema, and the values before that position are
  accepted, \<^verbatim>\<open>INSERT\<close> fails with the error \<open>unkown column\<close> followed by the name, before
  any row is inserted and before any index is updated: the stored data are as before.
\<close>

theorem insert_unknown_column_fails:
  assumes "insert_columns s = Some cols"
    and "get_table (insert_tableName s) db = (Inr table, db1)"
    and "i < length cols" and "i < length (insert_values s)"
    and "cols ! i \<notin> set (column_names table)"
    and "insert_row (take i cols) (take i (insert_values s)) (column_names table)
           (column_attributes table) [] = Inr row"
  shows "execute (kStmtInsert s) db = (Inl (SQLExecError (''unkown column '' @ cols ! i)), db1)
    \<and> stored_data db1 = stored_data db"
proof -
  let ?cn = "column_names table" and ?ct = "column_attributes table"
  have "insert_row cols (insert_values s) ?cn ?ct []
          = insert_row (drop i cols) (drop i (insert_values s)) ?cn ?ct row"
    using assms(3,4,6) by (intro insert_row_prefix) simp_all
  also have "\<dots> = insert_row (cols ! i # drop (Suc i) cols)
                     (insert_values s ! i # drop (Suc i) (insert_values s)) ?cn ?ct row"
    using assms(3,4) by (simp add: Cons_nth_drop_Suc)
  also have "\<dots> = Inl (SQLExecError (''unkown column '' @ cols ! i))"
    using get_column_type_unknown [OF assms(5)] by simp
  finally have "insert_statement s db = (Inl (SQLExecError (''unkown column '' @ cols ! i)), db1)"
    using assms(1,2) by (simp add: insert_statement_def)
  then show ?thesis
    using get_table_data [OF assms(2)] by (simp add: execute_def dispatch_def)
qed

theorem insert_unknown_column_fails_witness:
  "execute (kStmtInsert insert_unknown_column) db_created
     = (Inl (SQLExecError ''unkown column zzz''), db_created)"
proof -
  let ?table = "\<lparr>table_id = Rel_user ''t'', column_names = [''a'', ''b''],
                  column_attributes = [Attr_INT, Attr_TEXT]\<rparr>"
  have cols: "insert_columns insert_unknown_column = Some [''a'', ''zzz'']"
    by (simp add: insert_unknown_column_def)
  have gt: "get_table (insert_tableName insert_unknown_column) db_created
              = (Inr ?table, db_created)"
    by (simp add: db_created_eq storage_defs exec_defs example_defs)
  have i: "1 < length [''a'', ''zzz'']" "1 < length (insert_values insert_unknown_column)"
    by (simp_all add: insert_unknown_column_def)
  have unknown: "[''a'', ''zzz''] ! 1 \<notin> set (column_names ?table)"
    by simp
  have before: "insert_row (take 1 [''a'', ''zzz'']) (take 1 (insert_values insert_unknown_column))
                  (column_names ?table) (column_attributes ?table) [] = Inr [(''a'', VInt 1)]"
    by (simp add: insert_unknown_column_def literal_int_def)
  show ?thesis
    using insert_unknown_column_fails [OF cols gt i unknown before] by simp
qed

end
